theory Spec2Isabelle
  imports Main "HOL-Library.Multiset"
begin

section \<open>Errors\<close>

text \<open>
  Go errors as values. \<open>External\<close> is an error handed back by a collaborator (the
  Kubernetes client, the token storage, a filter, the HTTP client, \<open>url.Parse\<close>).
  \<open>Wrap msg e\<close> is \<open>fmt.Errorf(msg + ": %w", e)\<close>, \<open>Detail e s\<close> is
  \<open>fmt.Errorf("%w: '%s'", e, s)\<close>, \<open>DetailInt e n\<close> is
  \<open>fmt.Errorf("%w: %d", e, n)\<close>, \<open>Aggregate\<close> is the value built by
  \<open>kubeerrors.NewAggregate\<close>. The remaining constructors are the package-level
  sentinels of \<open>lookup.go\<close> and of the GitLab provider.
\<close>

datatype err =
    External string
  | Wrap string err
  | Detail err string
  | DetailInt err int
  | Aggregate "err list"
  | missingTargetError
  | accessTokenNotFoundError
  | unsupportedScopeError
  | unsupportedAreaError
  | unsupportedUserWritePermissionError
  | probeNotImplementedError
  | unexpectedStatusCodeError

text \<open>
  \<open>kubeerrors.NewAggregate\<close>: an empty list gives nil; the lists built in this
  program hold no nil entry, so every entry is kept.
\<close>

definition NewAggregate :: "err list \<Rightarrow> err option" where
  "NewAggregate errlist = (if length errlist = 0 then None else Some (Aggregate errlist))"

text \<open>
  \<open>fmt.Errorf(msg + ": %w", e)\<close> for an operand that may be nil: the result is never
  nil, and a nil operand is printed as \<open>%!w(<nil>)\<close> with nothing wrapped.
\<close>

definition Errorf_w :: "string \<Rightarrow> err option \<Rightarrow> err" where
  "Errorf_w msg e = (case e of None \<Rightarrow> External (msg @ '': %!w(<nil>)'') | Some e' \<Rightarrow> Wrap msg e')"

section \<open>Library functions on strings\<close>

definition strings_HasPrefix :: "string \<Rightarrow> string \<Rightarrow> bool" where
  "strings_HasPrefix s pre = (length s \<ge> length pre \<and> take (length pre) s = pre)"

text \<open>\<open>strings.Index\<close>: the index of the first instance of \<open>substr\<close> in \<open>s\<close>, or -1.\<close>

fun strings_Index :: "string \<Rightarrow> string \<Rightarrow> int" where
  "strings_Index [] substr = (if substr = [] then 0 else -1)"
| "strings_Index (c # s) substr =
     (if strings_HasPrefix (c # s) substr then 0
      else (let r = strings_Index s substr in if r = -1 then -1 else r + 1))"

definition strings_TrimPrefix :: "string \<Rightarrow> string \<Rightarrow> string" where
  "strings_TrimPrefix s pre = (if strings_HasPrefix s pre then drop (length pre) s else s)"

definition slices_Contains :: "string list \<Rightarrow> string \<Rightarrow> bool" where
  "slices_Contains s v = (v \<in> set s)"

section \<open>The URL parser\<close>

text \<open>The fields of \<open>url.URL\<close> the program reads.\<close>

record URL =
  Host :: string
  Path :: string

text \<open>
  \<open>url.Parse\<close> belongs to the Go standard library; it is a parameter of every
  function that calls it.
\<close>

type_synonym url_Parse = "string \<Rightarrow> err + URL"

definition RepoUrlFromString :: "url_Parse \<Rightarrow> string \<Rightarrow> err + URL" where
  "RepoUrlFromString parse repoUrl =
     (case parse repoUrl of
        Inl e \<Rightarrow> Inl (Wrap ''invalid url'' e)
      | Inr parsed \<Rightarrow> Inr parsed)"

definition RepoUrlFromSchemalessString :: "url_Parse \<Rightarrow> string \<Rightarrow> err + URL" where
  "RepoUrlFromSchemalessString parse repoUrl =
     (let schemeIndex = strings_Index repoUrl ''://'';
          repoUrl' = (if schemeIndex = -1 then ''https://'' @ repoUrl else repoUrl)
      in RepoUrlFromString parse repoUrl')"

section \<open>Cluster objects\<close>

text \<open>
  Modelled from the spec: the phase type and its constant are declared in the api
  package, outside the files verified here; the spec names the phase \<open>Ready\<close>.
\<close>

type_synonym SPIAccessTokenPhase = string

definition SPIAccessTokenPhaseReady :: SPIAccessTokenPhase where
  "SPIAccessTokenPhaseReady = ''Ready''"

text \<open>
  \<open>api.SPIAccessToken\<close>: name, namespace, \<open>Status.Phase\<close> and \<open>Status.TokenMetadata\<close>.
  The metadata type is declared outside the files verified here and stays a type parameter.
\<close>

record 'md SPIAccessToken =
  Name :: string
  Namespace :: string
  Phase :: SPIAccessTokenPhase
  TokenMetadata :: "'md option"

text \<open>\<open>api.Token\<close>, the token data kept by the token storage.\<close>

record Token =
  Token_Username :: string
  AccessToken :: string

record Credentials =
  Username :: string
  Token :: string

text \<open>\<open>v1beta1.TargetStatus\<close>; \<open>TargetNamespace\<close> is its field \<open>Namespace\<close>.\<close>

record TargetStatus =
  ApiUrl :: string
  TargetNamespace :: string
  SecretName :: string
  Error :: string

record RemoteSecret =
  RemoteSecret_Name :: string
  Annotations :: "string \<rightharpoonup> string"
  Targets :: "TargetStatus list"

text \<open>\<open>v1.Secret\<close>: the \<open>Data\<close> map, from key to bytes.\<close>

record Secret =
  Secret_Name :: string
  Data :: "string \<rightharpoonup> string"

text \<open>Reading a Go map at a key that is absent gives the zero value, here the empty string.\<close>

definition index_map :: "(string \<rightharpoonup> string) \<Rightarrow> string \<Rightarrow> string" where
  "index_map m k = (case m k of None \<Rightarrow> [] | Some v \<Rightarrow> v)"

text \<open>\<open>Matchable\<close>: what the lookup reads of the requesting object.\<close>

record Matchable =
  RepoUrl :: string
  ObjNamespace :: string

text \<open>
  Modelled from the spec: the names of the provider-type label and the provider-host label
  of tokens, and of the provider-host label and the repository-scope annotation of remote
  secrets, are declared in the api package, outside the files verified here. No result
  below depends on their values.
\<close>

definition ServiceProviderTypeLabel :: string where
  "ServiceProviderTypeLabel = ''spi.appstudio.redhat.com/service-provider-type''"

definition ServiceProviderHostLabel :: string where
  "ServiceProviderHostLabel = ''spi.appstudio.redhat.com/service-provider-host''"

definition RSServiceProviderHostLabel :: string where
  "RSServiceProviderHostLabel = ''appstudio.redhat.com/sp.host''"

definition RSServiceProviderRepositoryAnnotation :: string where
  "RSServiceProviderRepositoryAnnotation = ''appstudio.redhat.com/sp.repository''"

text \<open>The basic-auth keys of \<open>k8s.io/api/core/v1\<close>.\<close>

definition BasicAuthUsernameKey :: string where
  "BasicAuthUsernameKey = ''username''"

definition BasicAuthPasswordKey :: string where
  "BasicAuthPasswordKey = ''password''"

section \<open>The Kubernetes client and the record of its calls\<close>

text \<open>
  \<open>client.Client\<close> is consumed as a list/get interface. Each of its methods is a
  field: the answer the cluster gives to that request.
\<close>

record 'md Client =
  List_SPIAccessToken :: "string \<Rightarrow> (string \<times> string) list \<Rightarrow> err + 'md SPIAccessToken list"
  List_RemoteSecret :: "string \<Rightarrow> (string \<times> string) list \<Rightarrow> err + RemoteSecret list"
  Get_Secret :: "string \<Rightarrow> string \<Rightarrow> err + Secret"

record Request =
  Method :: string
  Request_URL :: string
  Header :: "(string \<times> string) list"

text \<open>
  Every function that talks to the cluster or to the network returns, next to its
  result, the requests it made, in the order it made them.
\<close>

datatype call =
    CallListSPIAccessToken string "(string \<times> string) list"
  | CallListRemoteSecret string "(string \<times> string) list"
  | CallGetSecret string string
  | CallHttpDo Request
  | CallGetProject string

section \<open>GenericLookup\<close>

text \<open>
  Modelled from the spec: \<open>MetadataCache.Ensure\<close> is declared outside the files
  verified here. The spec describes it as ensuring that the token's provider-specific
  metadata is present and fresh and returning an error or nothing; the field
  \<open>MetadataCache\<close> is that operation, answering with an error or with the metadata
  the token holds afterwards.

  The other fields are those of the struct \<open>GenericLookup\<close>. An interface-typed
  field is the method the program calls on it: \<open>TokenFilter\<close> is
  \<open>TokenFilter.Matches\<close>, \<open>TokenStorage\<close> is \<open>TokenStorage.Get\<close> (which may
  answer nil without an error), \<open>RemoteSecretFilter\<close> is
  \<open>RemoteSecretFilter.Matches\<close> or nil, \<open>MetadataProvider\<close> is what the cache
  fetches from.
\<close>

record 'md GenericLookup =
  ServiceProviderType :: string
  TokenFilter :: "Matchable \<Rightarrow> 'md SPIAccessToken \<Rightarrow> err + bool"
  TokenStorage :: "'md SPIAccessToken \<Rightarrow> err + Token option"
  RemoteSecretFilter :: "(Matchable \<Rightarrow> RemoteSecret \<Rightarrow> bool) option"
  MetadataProvider :: "'md SPIAccessToken \<Rightarrow> err + 'md option"
  MetadataCache :: "'md SPIAccessToken \<Rightarrow> ('md SPIAccessToken \<Rightarrow> err + 'md option) \<Rightarrow> err + 'md option"
  RepoUrlParser :: "string \<Rightarrow> err + URL"

subsection \<open>The concurrent examination of the candidates\<close>

text \<open>The two slices shared by the goroutines of \<open>Lookup\<close>, guarded by one mutex.\<close>

record 'md accumulators =
  errs :: "err list"
  result :: "'md SPIAccessToken list"

text \<open>
  The body of the goroutine started for one candidate. It works on its own copy
  \<open>tkn\<close> of the token and touches the shared slices in one place only, holding the
  mutex: it appends one error, or one token, or nothing.
\<close>

definition goroutine ::
  "'md GenericLookup \<Rightarrow> Matchable \<Rightarrow> 'md SPIAccessToken \<Rightarrow> 'md accumulators \<Rightarrow> 'md accumulators" where
  "goroutine l matchable tkn acc =
     (case MetadataCache l tkn (MetadataProvider l) of
        Inl e \<Rightarrow> acc\<lparr>errs := errs acc @ [e]\<rparr>
      | Inr md \<Rightarrow>
          (let tkn' = tkn\<lparr>TokenMetadata := md\<rparr> in
           case TokenFilter l matchable tkn' of
             Inl e \<Rightarrow> acc\<lparr>errs := errs acc @ [e]\<rparr>
           | Inr ok \<Rightarrow> if ok then acc\<lparr>result := result acc @ [tkn']\<rparr> else acc))"

text \<open>The loop that starts the goroutines: a candidate that is not ready is skipped.\<close>

fun spawned :: "'md SPIAccessToken list \<Rightarrow> 'md SPIAccessToken list" where
  "spawned [] = []"
| "spawned (t # ts) =
     (if Phase t \<noteq> SPIAccessTokenPhaseReady then spawned ts else t # spawned ts)"

text \<open>
  The goroutines take the mutex in an order the program does not fix. A schedule is a
  list of numbers: at each step the number, modulo the count of goroutines still to
  append, picks the one that appends next. With the schedule used up the rest append in
  the order they were started. Every schedule gives a permutation of the goroutines.
\<close>

fun interleave :: "nat list \<Rightarrow> 'a list \<Rightarrow> 'a list" where
  "interleave ks [] = []"
| "interleave [] xs = xs"
| "interleave (k # ks) xs =
     (let i = k mod length xs in xs ! i # interleave ks (take i xs @ drop (Suc i) xs))"

text \<open>\<open>wg.Wait()\<close>: the slices once every goroutine is done.\<close>

definition examine ::
  "'md GenericLookup \<Rightarrow> nat list \<Rightarrow> Matchable \<Rightarrow> 'md SPIAccessToken list \<Rightarrow> 'md accumulators" where
  "examine l sched matchable items =
     fold (goroutine l matchable) (interleave sched (spawned items)) \<lparr>errs = [], result = []\<rparr>"

subsection \<open>Lookup\<close>

text \<open>
  The result is the pair Go returns, a slice that may be nil and an error that may be
  nil, and next to it the calls made on the client.
\<close>

definition Lookup ::
  "'md GenericLookup \<Rightarrow> 'md Client \<Rightarrow> nat list \<Rightarrow> Matchable
     \<Rightarrow> ('md SPIAccessToken list option \<times> err option) \<times> call list" where
  "Lookup l cl sched matchable =
     (case RepoUrlParser l (RepoUrl matchable) of
        Inl e \<Rightarrow>
          ((Some [], Some (Wrap (''error parsing the host from repo URL '' @ RepoUrl matchable) e)), [])
      | Inr repoUrl \<Rightarrow>
          (let labels = [(ServiceProviderTypeLabel, ServiceProviderType l),
                         (ServiceProviderHostLabel, Host repoUrl)];
               calls = [CallListSPIAccessToken (ObjNamespace matchable) labels]
           in case List_SPIAccessToken cl (ObjNamespace matchable) labels of
                Inl e \<Rightarrow>
                  ((Some [], Some (Wrap ''failed to list the potentially matching tokens'' e)), calls)
              | Inr potentialMatches \<Rightarrow>
                  (let acc = examine l sched matchable potentialMatches in
                   if length (errs acc) > 0
                   then ((None, Some (Errorf_w ''errors while examining the potential matches''
                                        (NewAggregate (errs acc)))), calls)
                   else ((Some (result acc), None), calls))))"

subsection \<open>The remote secrets\<close>

text \<open>The loop of \<open>lookupRemoteSecrets\<close>: with no filter configured every item is kept.\<close>

fun filterRemoteSecrets ::
  "'md GenericLookup \<Rightarrow> Matchable \<Rightarrow> RemoteSecret list \<Rightarrow> RemoteSecret list" where
  "filterRemoteSecrets l matchable [] = []"
| "filterRemoteSecrets l matchable (item # items) =
     (if (case RemoteSecretFilter l of None \<Rightarrow> True | Some f \<Rightarrow> f matchable item)
      then item # filterRemoteSecrets l matchable items
      else filterRemoteSecrets l matchable items)"

definition lookupRemoteSecrets ::
  "'md GenericLookup \<Rightarrow> 'md Client \<Rightarrow> Matchable
     \<Rightarrow> (RemoteSecret list option \<times> err option) \<times> call list" where
  "lookupRemoteSecrets l cl matchable =
     (case RepoUrlParser l (RepoUrl matchable) of
        Inl e \<Rightarrow> ((None, Some (Wrap (''error parsing the repo URL '' @ RepoUrl matchable) e)), [])
      | Inr repoUrl \<Rightarrow>
          (let labels = [(RSServiceProviderHostLabel, Host repoUrl)];
               calls = [CallListRemoteSecret (ObjNamespace matchable) labels]
           in case List_RemoteSecret cl (ObjNamespace matchable) labels of
                Inl e \<Rightarrow>
                  ((None, Some (Wrap ''failed to list the potentially matching remote secrets'' e)), calls)
              | Inr potentialMatches \<Rightarrow>
                  ((Some (filterRemoteSecrets l matchable potentialMatches), None), calls)))"

text \<open>
  \<open>commaseparated.Value.Values\<close> belongs to another module; it is a parameter,
  \<open>values\<close>, of the functions that call it.

  The loop of \<open>lookupRemoteSecretSecret\<close> over the remote secrets: \<open>dflt\<close> is the
  value the variable \<open>matchingRemoteSecret\<close> holds before the loop.
\<close>

fun scopeLoop ::
  "(string \<Rightarrow> string list) \<Rightarrow> URL \<Rightarrow> RemoteSecret \<Rightarrow> RemoteSecret list \<Rightarrow> RemoteSecret" where
  "scopeLoop values repoUrl dflt [] = dflt"
| "scopeLoop values repoUrl dflt (rs # rest) =
     (let accessibleRepositories = index_map (Annotations rs) RSServiceProviderRepositoryAnnotation in
      if slices_Contains (values accessibleRepositories) (strings_TrimPrefix (Path repoUrl) ''/'')
      then rs
      else scopeLoop values repoUrl dflt rest)"

text \<open>The remote secret chosen from a list that is not empty.\<close>

definition matchingRemoteSecret ::
  "(string \<Rightarrow> string list) \<Rightarrow> URL \<Rightarrow> RemoteSecret list \<Rightarrow> RemoteSecret" where
  "matchingRemoteSecret values repoUrl remoteSecrets =
     scopeLoop values repoUrl (remoteSecrets ! 0) remoteSecrets"

fun targetLoop :: "int \<Rightarrow> TargetStatus list \<Rightarrow> string \<Rightarrow> int" where
  "targetLoop i [] namespace = -1"
| "targetLoop i (target # rest) namespace =
     (if ApiUrl target = [] \<and> Error target = [] \<and> TargetNamespace target = namespace
      then i
      else targetLoop (i + 1) rest namespace)"

definition getLocalNamespaceTargetIndex :: "TargetStatus list \<Rightarrow> string \<Rightarrow> int" where
  "getLocalNamespaceTargetIndex targets namespace = targetLoop 0 targets namespace"

definition lookupRemoteSecretSecret ::
  "(string \<Rightarrow> string list) \<Rightarrow> 'md GenericLookup \<Rightarrow> 'md Client \<Rightarrow> Matchable \<Rightarrow> RemoteSecret list
     \<Rightarrow> (Secret option \<times> err option) \<times> call list" where
  "lookupRemoteSecretSecret values l cl matchable remoteSecrets =
     (if length remoteSecrets = 0 then ((None, None), [])
      else case RepoUrlParser l (RepoUrl matchable) of
        Inl e \<Rightarrow> ((None, Some (Wrap (''error parsing the repo URL '' @ RepoUrl matchable) e)), [])
      | Inr repoUrl \<Rightarrow>
          (let chosen = matchingRemoteSecret values repoUrl remoteSecrets;
               targetIndex = getLocalNamespaceTargetIndex (Targets chosen) (ObjNamespace matchable)
           in if targetIndex < 0 \<or> targetIndex \<ge> int (length (Targets chosen))
              then ((None, Some missingTargetError), [])
              else
                (let name = SecretName (Targets chosen ! nat targetIndex);
                     calls = [CallGetSecret (ObjNamespace matchable) name]
                 in case Get_Secret cl (ObjNamespace matchable) name of
                      Inl e \<Rightarrow>
                        ((None, Some (Wrap ''unable to find Secret created by RemoteSecret'' e)), calls)
                    | Inr secret \<Rightarrow> ((Some secret, None), calls))))"

subsection \<open>LookupCredentials\<close>

text \<open>The length of a slice that may be nil, and its elements.\<close>

definition slice :: "'a list option \<Rightarrow> 'a list" where
  "slice s = (case s of None \<Rightarrow> [] | Some xs \<Rightarrow> xs)"

definition LookupCredentials ::
  "(string \<Rightarrow> string list) \<Rightarrow> 'md GenericLookup \<Rightarrow> 'md Client \<Rightarrow> nat list \<Rightarrow> Matchable
     \<Rightarrow> (Credentials option \<times> err option) \<times> call list" where
  "LookupCredentials values l cl sched matchable =
     (case Lookup l cl sched matchable of
        ((tokens, Some e), c1) \<Rightarrow> ((None, Some e), c1)
      | ((tokens, None), c1) \<Rightarrow>
          if length (slice tokens) > 0 then
            (case TokenStorage l (slice tokens ! 0) of
               Inl e \<Rightarrow> ((None, Some (Wrap ''failed to get token data'' e)), c1)
             | Inr None \<Rightarrow> ((None, Some accessTokenNotFoundError), c1)
             | Inr (Some tokenData) \<Rightarrow>
                 ((Some \<lparr>Username = Token_Username tokenData, Token = AccessToken tokenData\<rparr>, None), c1))
          else
            (case lookupRemoteSecrets l cl matchable of
               ((remoteSecrets, Some e), c2) \<Rightarrow> ((None, Some e), c1 @ c2)
             | ((remoteSecrets, None), c2) \<Rightarrow>
                 (case lookupRemoteSecretSecret values l cl matchable (slice remoteSecrets) of
                    ((secret, Some e), c3) \<Rightarrow> ((None, Some e), c1 @ c2 @ c3)
                  | ((None, None), c3) \<Rightarrow> ((None, None), c1 @ c2 @ c3)
                  | ((Some secret, None), c3) \<Rightarrow>
                      ((Some \<lparr>Username = index_map (Data secret) BasicAuthUsernameKey,
                              Token = index_map (Data secret) BasicAuthPasswordKey\<rparr>, None),
                       c1 @ c2 @ c3))))"

section \<open>The GitLab service provider\<close>

subsection \<open>Permissions and scopes\<close>

text \<open>
  Modelled from the spec: \<open>api.Permission\<close>, the Go string types \<open>PermissionType\<close>
  and \<open>PermissionArea\<close>, their constants and \<open>PermissionType.IsWrite\<close> are declared
  in the api package, outside the files verified here. The spec speaks of a permission as
  an area with read or write, and of the areas repository, repository metadata, registry
  and user; a permission type is a write when it is \<open>w\<close> or \<open>rw\<close>. The results below
  use of the area constants only that they differ from one another.
\<close>

type_synonym PermissionType = string
type_synonym PermissionArea = string

definition PermissionTypeWrite :: PermissionType where
  "PermissionTypeWrite = ''w''"

definition PermissionTypeReadWrite :: PermissionType where
  "PermissionTypeReadWrite = ''rw''"

definition IsWrite :: "PermissionType \<Rightarrow> bool" where
  "IsWrite pt = (pt = PermissionTypeWrite \<or> pt = PermissionTypeReadWrite)"

definition PermissionAreaRepository :: PermissionArea where
  "PermissionAreaRepository = ''repository''"

definition PermissionAreaRepositoryMetadata :: PermissionArea where
  "PermissionAreaRepositoryMetadata = ''repositoryMetadata''"

definition PermissionAreaRegistry :: PermissionArea where
  "PermissionAreaRegistry = ''registry''"

definition PermissionAreaUser :: PermissionArea where
  "PermissionAreaUser = ''user''"

record Permission =
  Permission_Type :: PermissionType
  Area :: PermissionArea

record Permissions =
  Required :: "Permission list"
  AdditionalScopes :: "string list"

text \<open>The GitLab scopes that the translation names.\<close>

datatype Scope =
    ScopeReadRepository
  | ScopeWriteRepository
  | ScopeReadRegistry
  | ScopeWriteRegistry
  | ScopeReadUser

definition translateToGitlabScopes :: "Permission \<Rightarrow> Scope list" where
  "translateToGitlabScopes permission =
     (if Area permission = PermissionAreaRepository \<or> Area permission = PermissionAreaRepositoryMetadata
      then (if IsWrite (Permission_Type permission) then [ScopeWriteRepository] else [ScopeReadRepository])
      else if Area permission = PermissionAreaRegistry
      then (if IsWrite (Permission_Type permission) then [ScopeWriteRegistry] else [ScopeReadRegistry])
      else if Area permission = PermissionAreaUser
      then [ScopeReadUser]
      else [])"

record ValidationResult =
  ScopeValidation :: "err list"

text \<open>The first loop of \<open>Validate\<close>, over the required permissions.\<close>

fun validateRequired :: "Permission list \<Rightarrow> ValidationResult \<Rightarrow> ValidationResult" where
  "validateRequired [] ret = ret"
| "validateRequired (p # ps) ret =
     (if Area p = PermissionAreaRepository \<or> Area p = PermissionAreaRepositoryMetadata
         \<or> Area p = PermissionAreaRegistry
      then validateRequired ps ret
      else if Area p = PermissionAreaUser
      then (if IsWrite (Permission_Type p)
            then validateRequired ps
                   (ret\<lparr>ScopeValidation := ScopeValidation ret @ [unsupportedUserWritePermissionError]\<rparr>)
            else validateRequired ps ret)
      else validateRequired ps
             (ret\<lparr>ScopeValidation := ScopeValidation ret @ [Detail unsupportedAreaError (Area p)]\<rparr>))"

text \<open>
  The second loop, over the additional scopes. \<open>IsValidScope\<close> is declared in another
  file of the package, outside the files verified here; it is a parameter.
\<close>

fun validateAdditional :: "(string \<Rightarrow> bool) \<Rightarrow> string list \<Rightarrow> ValidationResult \<Rightarrow> ValidationResult" where
  "validateAdditional IsValidScope [] ret = ret"
| "validateAdditional IsValidScope (s # ss) ret =
     (if \<not> IsValidScope s
      then validateAdditional IsValidScope ss
             (ret\<lparr>ScopeValidation := ScopeValidation ret @ [Detail unsupportedScopeError s]\<rparr>)
      else validateAdditional IsValidScope ss ret)"

definition Validate :: "(string \<Rightarrow> bool) \<Rightarrow> Permissions \<Rightarrow> ValidationResult \<times> err option" where
  "Validate IsValidScope validated =
     (let ret = \<lparr>ScopeValidation = []\<rparr>;
          ret = validateRequired (Required validated) ret;
          ret = validateAdditional IsValidScope (AdditionalScopes validated) ret
      in (ret, None))"

subsection \<open>The access check\<close>

record Response =
  StatusCode :: int

definition StatusOK :: int where
  "StatusOK = 200"

definition StatusNotFound :: int where
  "StatusNotFound = 404"

text \<open>
  \<open>http.NewRequestWithContext\<close> for a valid method, a context and no body: the URL is
  parsed, and the request carries the method, the URL and an empty header.
\<close>

definition NewRequestWithContext :: "url_Parse \<Rightarrow> string \<Rightarrow> string \<Rightarrow> err + Request" where
  "NewRequestWithContext parse method url =
     (case parse url of
        Inl e \<Rightarrow> Inl e
      | Inr u \<Rightarrow> Inr \<lparr>Method = method, Request_URL = url, Header = []\<rparr>)"

datatype SPIAccessCheckAccessibility =
    SPIAccessCheckAccessibilityPublic
  | SPIAccessCheckAccessibilityPrivate
  | SPIAccessCheckAccessibilityUnknown

datatype SPIAccessCheckErrorReason =
    SPIAccessCheckErrorUnknownError
  | SPIAccessCheckErrorRepoNotFound
  | SPIAccessCheckErrorBadURL
  | SPIAccessCheckErrorTokenLookupFailed

datatype SPIRepoType = SPIRepoTypeGit

datatype ServiceProviderTypeName = ServiceProviderTypeGitLab

text \<open>
  \<open>api.SPIAccessCheckStatus\<close>. \<open>ErrorReason\<close> is absent while the Go field is empty.
  \<open>ErrorMessage\<close> holds the error whose text, \<open>err.Error()\<close>, the Go field holds.
\<close>

record SPIAccessCheckStatus =
  Accessible :: bool
  Accessibility :: SPIAccessCheckAccessibility
  Status_Type :: SPIRepoType
  Status_ServiceProvider :: ServiceProviderTypeName
  ErrorReason :: "SPIAccessCheckErrorReason option"
  ErrorMessage :: "err option"

text \<open>
  \<open>api.SPIAccessCheck\<close>: \<open>Spec.RepoUrl\<close> and the namespace, which are what its methods
  \<open>RepoUrl()\<close> and \<open>ObjNamespace()\<close> return when it is used as a \<open>Matchable\<close>.
\<close>

record SPIAccessCheck =
  Spec_RepoUrl :: string
  AccessCheck_Namespace :: string

definition asMatchable :: "SPIAccessCheck \<Rightarrow> Matchable" where
  "asMatchable accessCheck =
     \<lparr>RepoUrl = Spec_RepoUrl accessCheck, ObjNamespace = AccessCheck_Namespace accessCheck\<rparr>"

type_synonym VisibilityValue = string

definition PrivateVisibility :: VisibilityValue where
  "PrivateVisibility = ''private''"

definition InternalVisibility :: VisibilityValue where
  "InternalVisibility = ''internal''"

record Project =
  Visibility :: VisibilityValue

text \<open>
  The fields of \<open>Gitlab\<close> the access check uses. \<open>httpClient\<close> is \<open>httpClient.Do\<close>,
  \<open>glClientBuilder\<close> is \<open>CreateAuthenticatedClient\<close>, \<open>repoUrlMatcher\<close> is
  \<open>parseOwnerAndProjectFromUrl\<close>. \<open>GetProject\<close> is \<open>Projects.GetProject\<close> of the
  client the builder made: it answers with an error and maybe a response, or with a
  project and maybe a response.
\<close>

record ('md, 'c) Gitlab =
  lookup :: "'md GenericLookup"
  httpClient :: "Request \<Rightarrow> err + Response"
  glClientBuilder :: "Credentials \<Rightarrow> err + 'c"
  repoUrlMatcher :: "string \<Rightarrow> err + string \<times> string"
  GetProject :: "'c \<Rightarrow> string \<Rightarrow> (Response option \<times> err) + (Project \<times> Response option)"

definition preserveError ::
  "SPIAccessCheckStatus \<Rightarrow> SPIAccessCheckErrorReason \<Rightarrow> err
     \<Rightarrow> SPIAccessCheckStatus option \<times> err option" where
  "preserveError status errReason e =
     (Some (status\<lparr>ErrorReason := Some errReason, ErrorMessage := Some e\<rparr>), None)"

definition checkPrivateRepoAccess ::
  "(string \<Rightarrow> string list) \<Rightarrow> ('md, 'c) Gitlab \<Rightarrow> 'md Client \<Rightarrow> nat list \<Rightarrow> SPIAccessCheck
     \<Rightarrow> (SPIAccessCheckStatus option \<times> err option) \<times> call list" where
  "checkPrivateRepoAccess values g cl sched accessCheck =
     (let status = \<lparr>Accessible = False, Accessibility = SPIAccessCheckAccessibilityUnknown,
                     Status_Type = SPIRepoTypeGit, Status_ServiceProvider = ServiceProviderTypeGitLab,
                     ErrorReason = None, ErrorMessage = None\<rparr>
      in case repoUrlMatcher g (Spec_RepoUrl accessCheck) of
           Inl e \<Rightarrow> (preserveError status SPIAccessCheckErrorBadURL e, [])
         | Inr (owner, name) \<Rightarrow>
             (case LookupCredentials values (lookup g) cl sched (asMatchable accessCheck) of
                ((credentials, Some e), c1) \<Rightarrow>
                  (preserveError status SPIAccessCheckErrorTokenLookupFailed e, c1)
              | ((None, None), c1) \<Rightarrow> ((Some status, None), c1)
              | ((Some credentials, None), c1) \<Rightarrow>
                  (case glClientBuilder g credentials of
                     Inl e \<Rightarrow> (preserveError status SPIAccessCheckErrorUnknownError e, c1)
                   | Inr gitlabClient \<Rightarrow>
                       (let c2 = c1 @ [CallGetProject (owner @ ''/'' @ name)] in
                        case GetProject g gitlabClient (owner @ ''/'' @ name) of
                          Inl (response, e) \<Rightarrow>
                            (if response \<noteq> None \<and> map_option StatusCode response = Some StatusNotFound
                             then (preserveError status SPIAccessCheckErrorRepoNotFound e, c2)
                             else (preserveError status SPIAccessCheckErrorUnknownError e, c2))
                        | Inr (project, response) \<Rightarrow>
                            (if response \<noteq> None \<and> map_option StatusCode response \<noteq> Some StatusOK
                             then (preserveError status SPIAccessCheckErrorUnknownError
                                     (DetailInt unexpectedStatusCodeError
                                        (case response of None \<Rightarrow> 0 | Some r \<Rightarrow> StatusCode r)), c2)
                             else
                               (let status = status\<lparr>Accessible := True\<rparr> in
                                if Visibility project = PrivateVisibility
                                   \<or> Visibility project = InternalVisibility
                                then ((Some (status\<lparr>Accessibility := SPIAccessCheckAccessibilityPrivate\<rparr>),
                                       None), c2)
                                else ((Some status, None), c2)))))))"

text \<open>
  \<open>checkPublicRepoAccess\<close>. A status code other than 200 and 404 is written to the
  log, which changes nothing in the result.
\<close>

definition checkPublicRepoAccess ::
  "url_Parse \<Rightarrow> ('md, 'c) Gitlab \<Rightarrow> SPIAccessCheck \<Rightarrow> (bool \<times> err option) \<times> call list" where
  "checkPublicRepoAccess parse g accessCheck =
     (case NewRequestWithContext parse ''GET'' (Spec_RepoUrl accessCheck) of
        Inl e \<Rightarrow>
          ((False, Some (Wrap (''error while constructing HTTP request for access check to ''
                                @ Spec_RepoUrl accessCheck) e)), [])
      | Inr req \<Rightarrow>
          (case httpClient g req of
             Inl e \<Rightarrow>
               ((False, Some (Wrap (''error performing HTTP request for access check to ''
                                     @ Spec_RepoUrl accessCheck) e)), [CallHttpDo req])
           | Inr resp \<Rightarrow>
               if StatusCode resp = StatusOK then ((True, None), [CallHttpDo req])
               else ((False, None), [CallHttpDo req])))"

definition CheckRepositoryAccess ::
  "url_Parse \<Rightarrow> (string \<Rightarrow> string list) \<Rightarrow> ('md, 'c) Gitlab \<Rightarrow> 'md Client \<Rightarrow> nat list \<Rightarrow> SPIAccessCheck
     \<Rightarrow> (SPIAccessCheckStatus option \<times> err option) \<times> call list" where
  "CheckRepositoryAccess parse values g cl sched accessCheck =
     (let status = \<lparr>Accessible = False, Accessibility = SPIAccessCheckAccessibilityUnknown,
                     Status_Type = SPIRepoTypeGit, Status_ServiceProvider = ServiceProviderTypeGitLab,
                     ErrorReason = None, ErrorMessage = None\<rparr>
      in case checkPublicRepoAccess parse g accessCheck of
           ((publicRepo, Some e), c1) \<Rightarrow> ((None, Some e), c1)
         | ((publicRepo, None), c1) \<Rightarrow>
             (let status = status\<lparr>Accessible := publicRepo\<rparr> in
              if publicRepo
              then ((Some (status\<lparr>Accessibility := SPIAccessCheckAccessibilityPublic\<rparr>), None), c1)
              else (case checkPrivateRepoAccess values g cl sched accessCheck of
                      (r, c2) \<Rightarrow> (r, c1 @ c2))))"

section \<open>Notions used to state the properties\<close>

text \<open>
  The error with which the evaluation of one candidate fails, if it fails: the error of
  the metadata cache, or else the error of the token filter on the refreshed token.
\<close>

definition candidateError ::
  "'md GenericLookup \<Rightarrow> Matchable \<Rightarrow> 'md SPIAccessToken \<Rightarrow> err option" where
  "candidateError l matchable t =
     (case MetadataCache l t (MetadataProvider l) of
        Inl e \<Rightarrow> Some e
      | Inr md \<Rightarrow>
          (case TokenFilter l matchable (t\<lparr>TokenMetadata := md\<rparr>) of
             Inl e \<Rightarrow> Some e
           | Inr ok \<Rightarrow> None))"

text \<open>The refreshed token, if the evaluation of the candidate succeeds and the filter accepts it.\<close>

definition candidateMatch ::
  "'md GenericLookup \<Rightarrow> Matchable \<Rightarrow> 'md SPIAccessToken \<Rightarrow> 'md SPIAccessToken option" where
  "candidateMatch l matchable t =
     (case MetadataCache l t (MetadataProvider l) of
        Inl e \<Rightarrow> None
      | Inr md \<Rightarrow>
          (case TokenFilter l matchable (t\<lparr>TokenMetadata := md\<rparr>) of
             Inl e \<Rightarrow> None
           | Inr ok \<Rightarrow> if ok then Some (t\<lparr>TokenMetadata := md\<rparr>) else None))"

text \<open>
  A remote secret whose repository annotation, read as a list of paths, holds the path of
  the request without its leading slash.
\<close>

definition scopeMatches :: "(string \<Rightarrow> string list) \<Rightarrow> URL \<Rightarrow> RemoteSecret \<Rightarrow> bool" where
  "scopeMatches values repoUrl rs =
     (strings_TrimPrefix (Path repoUrl) ''/''
        \<in> set (values (index_map (Annotations rs) RSServiceProviderRepositoryAnnotation)))"

text \<open>A target in the local cluster, delivered without error, in the given namespace.\<close>

definition isLocalNamespaceTarget :: "string \<Rightarrow> TargetStatus \<Rightarrow> bool" where
  "isLocalNamespaceTarget namespace target =
     (ApiUrl target = [] \<and> Error target = [] \<and> TargetNamespace target = namespace)"

text \<open>The areas GitLab knows, and the errors one required permission gives rise to.\<close>

definition supportedAreas :: "PermissionArea list" where
  "supportedAreas =
     [PermissionAreaRepository, PermissionAreaRepositoryMetadata, PermissionAreaRegistry,
      PermissionAreaUser]"

definition permissionErrors :: "Permission \<Rightarrow> err list" where
  "permissionErrors p =
     (if Area p \<notin> set supportedAreas then [Detail unsupportedAreaError (Area p)]
      else if Area p = PermissionAreaUser \<and> IsWrite (Permission_Type p)
      then [unsupportedUserWritePermissionError]
      else [])"

section \<open>A small cluster for the examples\<close>

definition exampleMatchable :: Matchable where
  "exampleMatchable = \<lparr>RepoUrl = ''gitlab.com/org/repo'', ObjNamespace = ''team''\<rparr>"

definition exampleToken :: "string \<Rightarrow> SPIAccessTokenPhase \<Rightarrow> string SPIAccessToken" where
  "exampleToken n p = \<lparr>Name = n, Namespace = ''team'', Phase = p, TokenMetadata = None\<rparr>"

text \<open>
  The cache fails on the tokens \<open>b\<close> and \<open>c\<close>, the filter fails on \<open>d\<close> and rejects
  \<open>f\<close>; the storage holds data for \<open>a\<close> only.
\<close>

definition exampleLookup :: "string GenericLookup" where
  "exampleLookup =
     \<lparr>ServiceProviderType = ''GitLab'',
      TokenFilter = (\<lambda>m t. if Name t = ''d'' then Inl (External ''filter'') else Inr (Name t \<noteq> ''f'')),
      TokenStorage = (\<lambda>t. if Name t = ''a''
                          then Inr (Some \<lparr>Token_Username = ''alice'', AccessToken = ''glpat''\<rparr>)
                          else Inr None),
      RemoteSecretFilter = None,
      MetadataProvider = (\<lambda>t. Inr None),
      MetadataCache = (\<lambda>t p. if Name t = ''b'' \<or> Name t = ''c''
                             then Inl (External ''cache'') else Inr (Some ''fresh'')),
      RepoUrlParser = (\<lambda>s. Inr \<lparr>Host = ''gitlab.com'', Path = ''/org/repo''\<rparr>)\<rparr>"

definition exampleClient ::
  "string SPIAccessToken list \<Rightarrow> RemoteSecret list \<Rightarrow> (string \<rightharpoonup> Secret) \<Rightarrow> string Client" where
  "exampleClient items remoteSecrets secrets =
     \<lparr>List_SPIAccessToken = (\<lambda>ns ls. Inr items),
      List_RemoteSecret = (\<lambda>ns ls. Inr remoteSecrets),
      Get_Secret = (\<lambda>ns n. case secrets n of None \<Rightarrow> Inl (External ''not found'') | Some s \<Rightarrow> Inr s)\<rparr>"

text \<open>A splitter at commas, the value of the parameter \<open>values\<close> in the examples.\<close>

fun splitAtCommas :: "string \<Rightarrow> string \<Rightarrow> string list" where
  "splitAtCommas cur [] = [cur]"
| "splitAtCommas cur (c # s) =
     (if c = CHR '','' then cur # splitAtCommas [] s else splitAtCommas (cur @ [c]) s)"

definition exampleValues :: "string \<Rightarrow> string list" where
  "exampleValues s = (if s = [] then [] else splitAtCommas [] s)"

definition exampleRemoteSecret :: "string \<Rightarrow> string option \<Rightarrow> TargetStatus list \<Rightarrow> RemoteSecret" where
  "exampleRemoteSecret n scope targets =
     \<lparr>RemoteSecret_Name = n,
      Annotations = (case scope of None \<Rightarrow> Map.empty
                     | Some v \<Rightarrow> [RSServiceProviderRepositoryAnnotation \<mapsto> v]),
      Targets = targets\<rparr>"

definition exampleTarget :: "string \<Rightarrow> string \<Rightarrow> string \<Rightarrow> TargetStatus" where
  "exampleTarget api ns n = \<lparr>ApiUrl = api, TargetNamespace = ns, SecretName = n, Error = []\<rparr>"

text \<open>Two target secrets; the second has no password.\<close>

definition exampleSecrets :: "string \<rightharpoonup> Secret" where
  "exampleSecrets =
     [''plain-secret'' \<mapsto> \<lparr>Secret_Name = ''plain-secret'',
                           Data = [''username'' \<mapsto> ''carol'', ''password'' \<mapsto> ''hunter2'']\<rparr>,
      ''scoped-secret'' \<mapsto> \<lparr>Secret_Name = ''scoped-secret'', Data = [''username'' \<mapsto> ''bob'']\<rparr>]"

definition exampleParse :: url_Parse where
  "exampleParse s =
     (if s = ''https://gitlab.com/org/repo'' then Inr \<lparr>Host = ''gitlab.com'', Path = ''/org/repo''\<rparr>
      else if s = ''https://gitlab.com/org/public'' then Inr \<lparr>Host = ''gitlab.com'', Path = ''/org/public''\<rparr>
      else Inl (External ''parse''))"

text \<open>A GitLab that answers 200 for the repository \<open>org/public\<close> and 404 for any other.\<close>

definition exampleGitlab :: "(string, Credentials) Gitlab" where
  "exampleGitlab =
     \<lparr>lookup = exampleLookup,
      httpClient = (\<lambda>req. Inr \<lparr>StatusCode = (if Request_URL req = ''https://gitlab.com/org/public''
                                               then 200 else 404)\<rparr>),
      glClientBuilder = (\<lambda>c. Inr c),
      repoUrlMatcher = (\<lambda>s. Inr (''org'', ''repo'')),
      GetProject = (\<lambda>c p. Inr (\<lparr>Visibility = ''private''\<rparr>, Some \<lparr>StatusCode = 200\<rparr>))\<rparr>"

section \<open>Auxiliary facts\<close>

lemma strings_HasPrefix_iff: "strings_HasPrefix s pre = (\<exists>suf. s = pre @ suf)"
  unfolding strings_HasPrefix_def
  by (metis append_eq_conv_conj append_take_drop_id length_append le_add1)

lemma strings_Index_ge: "strings_Index s substr \<ge> -1"
  by (induction s) (auto simp: Let_def)

lemma strings_Index_absent:
  "(strings_Index s substr = -1) = (\<not> (\<exists>pre suf. s = pre @ substr @ suf))"
proof (induction s)
  case Nil
  then show ?case by auto
next
  case (Cons c s)
  show ?case
  proof (cases "strings_HasPrefix (c # s) substr")
    case True
    then obtain suf where "c # s = substr @ suf" by (auto simp: strings_HasPrefix_iff)
    then have "c # s = [] @ substr @ suf" by simp
    then have "\<exists>pre suf. c # s = pre @ substr @ suf" by blast
    with True show ?thesis by simp
  next
    case False
    have ge: "strings_Index s substr \<ge> -1" by (rule strings_Index_ge)
    have a: "(strings_Index (c # s) substr = -1) = (strings_Index s substr = -1)"
      using False ge by (auto simp: Let_def)
    have b: "(\<exists>pre suf. c # s = pre @ substr @ suf) = (\<exists>pre suf. s = pre @ substr @ suf)"
    proof
      assume "\<exists>pre suf. c # s = pre @ substr @ suf"
      then obtain pre suf where e: "c # s = pre @ substr @ suf" by blast
      show "\<exists>pre suf. s = pre @ substr @ suf"
      proof (cases pre)
        case Nil
        with e have "strings_HasPrefix (c # s) substr" by (auto simp: strings_HasPrefix_iff)
        with False show ?thesis by simp
      next
        case (Cons a pre')
        with e have "s = pre' @ substr @ suf" by simp
        then show ?thesis by blast
      qed
    next
      assume "\<exists>pre suf. s = pre @ substr @ suf"
      then obtain pre suf where "s = pre @ substr @ suf" by blast
      then have "c # s = (c # pre) @ substr @ suf" by simp
      then show "\<exists>pre suf. c # s = pre @ substr @ suf" by blast
    qed
    show ?thesis using a b Cons.IH by simp
  qed
qed

lemma spawned_filter: "spawned items = filter (\<lambda>t. Phase t = SPIAccessTokenPhaseReady) items"
  by (induction items) auto

text \<open>Whatever the schedule, the goroutines that append are the goroutines that were started.\<close>

lemma mset_interleave: "mset (interleave ks xs) = mset xs"
proof (induction ks xs rule: interleave.induct)
  case (3 k ks x xs)
  let ?ys = "x # xs"
  let ?i = "k mod length ?ys"
  have i: "?i < length ?ys" by simp
  have "mset (interleave (k # ks) ?ys) = add_mset (?ys ! ?i) (mset (take ?i ?ys @ drop (Suc ?i) ?ys))"
    using "3.IH" by (simp add: Let_def del: take_Suc_Cons drop_Suc_Cons nth_Cons_Suc)
  also have "\<dots> = mset (take ?i ?ys @ ?ys ! ?i # drop (Suc ?i) ?ys)" by simp
  also have "\<dots> = mset ?ys" using id_take_nth_drop[OF i] by simp
  finally show ?case .
qed simp_all

text \<open>And every order in which the goroutines may append is the order of some schedule.\<close>

lemma interleave_complete:
  "mset ys = mset xs \<Longrightarrow> \<exists>ks. interleave ks xs = ys"
proof (induction ys arbitrary: xs)
  case Nil
  then have "xs = []" by simp
  then have "interleave [] xs = []" by simp
  then show ?case by blast
next
  case (Cons y ys)
  then have "y \<in> set xs" by (metis list.set_intros(1) set_mset_mset)
  then obtain i where i: "i < length xs" "xs ! i = y" by (auto simp: in_set_conv_nth)
  let ?rest = "take i xs @ drop (Suc i) xs"
  have "mset xs = add_mset y (mset ?rest)"
    using id_take_nth_drop[OF i(1)] i(2) by (metis mset.simps(2) mset_append union_mset_add_mset_right)
  with Cons.prems have "mset ys = mset ?rest" by simp
  then obtain ks where ks: "interleave ks ?rest = ys" using Cons.IH by blast
  from i(1) obtain x xs' where xs: "xs = x # xs'" by (cases xs) auto
  have "interleave (i # ks) xs = xs ! (i mod length xs) # interleave ks (take (i mod length xs) xs @ drop (Suc (i mod length xs)) xs)"
    unfolding xs by (simp add: Let_def del: take_Suc_Cons drop_Suc_Cons nth_Cons_Suc)
  also have "\<dots> = y # ys" using i ks by simp
  finally show ?case by blast
qed

lemma goroutine_errs:
  "errs (goroutine l m t acc) = errs acc @ (case candidateError l m t of None \<Rightarrow> [] | Some e \<Rightarrow> [e])"
  by (simp add: goroutine_def candidateError_def Let_def split: sum.splits)

lemma goroutine_result:
  "result (goroutine l m t acc) = result acc @ (case candidateMatch l m t of None \<Rightarrow> [] | Some t' \<Rightarrow> [t'])"
  by (simp add: goroutine_def candidateMatch_def Let_def split: sum.splits)

lemma fold_goroutine_errs:
  "errs (fold (goroutine l m) ts acc) = errs acc @ List.map_filter (candidateError l m) ts"
  by (induction ts arbitrary: acc) (auto simp: goroutine_errs map_filter_simps split: option.splits)

lemma fold_goroutine_result:
  "result (fold (goroutine l m) ts acc) = result acc @ List.map_filter (candidateMatch l m) ts"
  by (induction ts arbitrary: acc) (auto simp: goroutine_result map_filter_simps split: option.splits)

lemma mset_map_filter:
  "mset xs = mset ys \<Longrightarrow> mset (List.map_filter f xs) = mset (List.map_filter f ys)"
proof -
  assume a: "mset xs = mset ys"
  have "\<And>zs. mset (List.map_filter f zs)
          = image_mset (the \<circ> f) (filter_mset (\<lambda>x. f x \<noteq> None) (mset zs))"
    unfolding map_filter_def by simp
  then show ?thesis using a by simp
qed

lemma length_map_filter: "length (List.map_filter f xs) = length (filter (\<lambda>x. f x \<noteq> None) xs)"
  by (simp add: map_filter_def)

lemma examine_errs:
  "mset (errs (examine l sched m items)) =
     mset (List.map_filter (candidateError l m) (filter (\<lambda>t. Phase t = SPIAccessTokenPhaseReady) items))"
  unfolding examine_def fold_goroutine_errs spawned_filter
  by (simp add: mset_map_filter[OF mset_interleave])

lemma examine_result:
  "mset (result (examine l sched m items)) =
     mset (List.map_filter (candidateMatch l m) (filter (\<lambda>t. Phase t = SPIAccessTokenPhaseReady) items))"
  unfolding examine_def fold_goroutine_result spawned_filter
  by (simp add: mset_map_filter[OF mset_interleave])

lemma candidateMatch_Phase: "candidateMatch l m t = Some t' \<Longrightarrow> Phase t' = Phase t"
  by (auto simp: candidateMatch_def split: sum.splits if_splits)

lemma examine_result_ready:
  assumes "t \<in> set (result (examine l sched m items))"
  shows "Phase t = SPIAccessTokenPhaseReady"
proof -
  from assms have "t \<in># mset (result (examine l sched m items))" by simp
  then have "t \<in> set (List.map_filter (candidateMatch l m)
                        (filter (\<lambda>t. Phase t = SPIAccessTokenPhaseReady) items))"
    unfolding examine_result by simp
  then obtain t0 where "t0 \<in> set items" "Phase t0 = SPIAccessTokenPhaseReady"
    "candidateMatch l m t0 = Some t"
    by (auto simp: map_filter_def)
  then show ?thesis using candidateMatch_Phase by metis
qed

section \<open>The URL parser: properties\<close>

text \<open>
  C7. For a repository URL string that does not contain \<open>://\<close>,
  \<open>RepoUrlFromSchemalessString\<close> gives what parsing the string with \<open>https://\<close> put
  in front gives, hence the same host and path; a string that contains \<open>://\<close> is
  parsed as it is. When \<open>url.Parse\<close> fails, the result is the error
  \<open>invalid url\<close> wrapping the error of \<open>url.Parse\<close>.
\<close>

theorem RepoUrlFromSchemalessString_https:
  "(\<not> (\<exists>pre suf. repoUrl = pre @ ''://'' @ suf)
      \<longrightarrow> RepoUrlFromSchemalessString parse repoUrl = RepoUrlFromString parse (''https://'' @ repoUrl))
   \<and> ((\<exists>pre suf. repoUrl = pre @ ''://'' @ suf)
      \<longrightarrow> RepoUrlFromSchemalessString parse repoUrl = RepoUrlFromString parse repoUrl)
   \<and> (\<forall>e. parse s = Inl e \<longrightarrow> RepoUrlFromString parse s = Inl (Wrap ''invalid url'' e))
   \<and> (\<forall>u. parse s = Inr u \<longrightarrow> RepoUrlFromString parse s = Inr u)"
proof -
  have absent: "\<not> (\<exists>pre suf. repoUrl = pre @ ''://'' @ suf)
      \<Longrightarrow> RepoUrlFromSchemalessString parse repoUrl = RepoUrlFromString parse (''https://'' @ repoUrl)"
    using strings_Index_absent[of repoUrl "''://''"]
    by (simp add: RepoUrlFromSchemalessString_def Let_def)
  have present: "\<exists>pre suf. repoUrl = pre @ ''://'' @ suf
      \<Longrightarrow> RepoUrlFromSchemalessString parse repoUrl = RepoUrlFromString parse repoUrl"
    using strings_Index_absent[of repoUrl "''://''"]
    by (simp add: RepoUrlFromSchemalessString_def Let_def)
  have failure: "\<forall>e. parse s = Inl e \<longrightarrow> RepoUrlFromString parse s = Inl (Wrap ''invalid url'' e)"
    by (simp add: RepoUrlFromString_def)
  have success: "\<forall>u. parse s = Inr u \<longrightarrow> RepoUrlFromString parse s = Inr u"
    by (simp add: RepoUrlFromString_def)
  from absent present failure success show ?thesis by blast
qed

theorem RepoUrlFromSchemalessString_https_witness:
  "\<not> (\<exists>pre suf. ''gitlab.com/org/repo'' = pre @ ''://'' @ suf)
   \<and> RepoUrlFromSchemalessString exampleParse ''gitlab.com/org/repo''
       = RepoUrlFromString exampleParse ''https://gitlab.com/org/repo''
   \<and> RepoUrlFromSchemalessString exampleParse ''gitlab.com/org/repo''
       = Inr \<lparr>Host = ''gitlab.com'', Path = ''/org/repo''\<rparr>
   \<and> (\<exists>pre suf. ''https://gitlab.com/org/repo'' = pre @ ''://'' @ suf)
   \<and> RepoUrlFromSchemalessString exampleParse ''https://gitlab.com/org/repo''
       = Inr \<lparr>Host = ''gitlab.com'', Path = ''/org/repo''\<rparr>
   \<and> exampleParse ''https://%zz'' = Inl (External ''parse'')
   \<and> RepoUrlFromSchemalessString exampleParse ''%zz'' = Inl (Wrap ''invalid url'' (External ''parse''))"
proof -
  have idx: "strings_Index ''gitlab.com/org/repo'' ''://'' = -1"
    by (simp add: strings_HasPrefix_def)
  have no: "\<not> (\<exists>pre suf. ''gitlab.com/org/repo'' = pre @ ''://'' @ suf)"
    using strings_Index_absent[of "''gitlab.com/org/repo''" "''://''"] idx by simp
  have idx2: "strings_Index ''%zz'' ''://'' = -1"
    by (simp add: strings_HasPrefix_def)
  have no2: "\<not> (\<exists>pre suf. ''%zz'' = pre @ ''://'' @ suf)"
    using strings_Index_absent[of "''%zz''" "''://''"] idx2 by simp
  have yes: "\<exists>pre suf. ''https://gitlab.com/org/repo'' = pre @ ''://'' @ suf"
  proof -
    have "''https://gitlab.com/org/repo'' = ''https'' @ ''://'' @ ''gitlab.com/org/repo''" by simp
    then show ?thesis by blast
  qed
  have p1: "exampleParse ''https://gitlab.com/org/repo'' = Inr \<lparr>Host = ''gitlab.com'', Path = ''/org/repo''\<rparr>"
    by (simp add: exampleParse_def)
  have p2: "exampleParse ''https://%zz'' = Inl (External ''parse'')"
    by (simp add: exampleParse_def)
  note t1 = RepoUrlFromSchemalessString_https[of "''gitlab.com/org/repo''" exampleParse "''https://gitlab.com/org/repo''"]
  note t2 = RepoUrlFromSchemalessString_https[of "''https://gitlab.com/org/repo''" exampleParse "''https://gitlab.com/org/repo''"]
  note t3 = RepoUrlFromSchemalessString_https[of "''%zz''" exampleParse "''https://%zz''"]
  have a: "RepoUrlFromSchemalessString exampleParse ''gitlab.com/org/repo''
       = RepoUrlFromString exampleParse ''https://gitlab.com/org/repo''"
    using t1 no by simp
  have b: "RepoUrlFromString exampleParse ''https://gitlab.com/org/repo'' = Inr \<lparr>Host = ''gitlab.com'', Path = ''/org/repo''\<rparr>"
    using t1 p1 by blast
  have c: "RepoUrlFromSchemalessString exampleParse ''https://gitlab.com/org/repo''
       = Inr \<lparr>Host = ''gitlab.com'', Path = ''/org/repo''\<rparr>"
    using t2 yes b by simp
  have d: "RepoUrlFromSchemalessString exampleParse ''%zz'' = Inl (Wrap ''invalid url'' (External ''parse''))"
    using t3 no2 p2 by simp
  show ?thesis using no a b c d yes p2 by simp
qed

section \<open>Lookup: properties\<close>

text \<open>
  C2. When the URL parses and the tokens are listed, and the evaluation of at least one
  ready candidate fails (in the metadata cache or in the token filter), \<open>Lookup\<close>
  returns no list, and its error wraps the aggregate of the errors collected. Whatever
  the order in which the goroutines finish, the aggregate holds the error of every
  failing ready candidate, each once: as many errors as there are failing ready
  candidates.
\<close>

theorem Lookup_aggregates_every_failure:
  assumes parse: "RepoUrlParser l (RepoUrl matchable) = Inr repoUrl"
    and list: "List_SPIAccessToken cl (ObjNamespace matchable)
                 [(ServiceProviderTypeLabel, ServiceProviderType l),
                  (ServiceProviderHostLabel, Host repoUrl)] = Inr items"
    and failing: "\<exists>t \<in> set items. Phase t = SPIAccessTokenPhaseReady \<and> candidateError l matchable t \<noteq> None"
  shows "\<exists>es. fst (Lookup l cl sched matchable)
                = (None, Some (Wrap ''errors while examining the potential matches'' (Aggregate es)))
           \<and> mset es = mset (List.map_filter (candidateError l matchable)
                               (filter (\<lambda>t. Phase t = SPIAccessTokenPhaseReady) items))
           \<and> length es = length (filter (\<lambda>t. Phase t = SPIAccessTokenPhaseReady
                                            \<and> candidateError l matchable t \<noteq> None) items)"
proof -
  let ?ready = "filter (\<lambda>t. Phase t = SPIAccessTokenPhaseReady) items"
  let ?es = "errs (examine l sched matchable items)"
  have m: "mset ?es = mset (List.map_filter (candidateError l matchable) ?ready)"
    by (rule examine_errs)
  have "length ?es = size (mset ?es)" by simp
  also have "\<dots> = length (List.map_filter (candidateError l matchable) ?ready)"
    unfolding m by simp
  also have "\<dots> = length (filter (\<lambda>t. Phase t = SPIAccessTokenPhaseReady
                                            \<and> candidateError l matchable t \<noteq> None) items)"
    by (simp add: length_map_filter conj_commute)
  finally have len: "length ?es = length (filter (\<lambda>t. Phase t = SPIAccessTokenPhaseReady
                                            \<and> candidateError l matchable t \<noteq> None) items)" .
  from failing have "filter (\<lambda>t. Phase t = SPIAccessTokenPhaseReady
                                 \<and> candidateError l matchable t \<noteq> None) items \<noteq> []"
    by (auto simp: filter_empty_conv)
  with len have pos: "length ?es > 0" by simp
  have "fst (Lookup l cl sched matchable)
          = (None, Some (Wrap ''errors while examining the potential matches'' (Aggregate ?es)))"
    using parse list pos by (simp add: Lookup_def Let_def NewAggregate_def Errorf_w_def)
  with m len show ?thesis by blast
qed

theorem Lookup_aggregates_every_failure_witness:
  "fst (Lookup exampleLookup
          (exampleClient [exampleToken ''a'' ''Ready'', exampleToken ''b'' ''AwaitingTokenData'',
                          exampleToken ''c'' ''Ready'', exampleToken ''d'' ''Ready''] [] Map.empty)
          [2] exampleMatchable)
     = (None, Some (Wrap ''errors while examining the potential matches''
                      (Aggregate [External ''filter'', External ''cache''])))
   \<and> (\<exists>es. fst (Lookup exampleLookup
          (exampleClient [exampleToken ''a'' ''Ready'', exampleToken ''b'' ''AwaitingTokenData'',
                          exampleToken ''c'' ''Ready'', exampleToken ''d'' ''Ready''] [] Map.empty)
          [2] exampleMatchable)
     = (None, Some (Wrap ''errors while examining the potential matches'' (Aggregate es)))
      \<and> length es = 2)"
proof -
  let ?items = "[exampleToken ''a'' ''Ready'', exampleToken ''b'' ''AwaitingTokenData'',
                 exampleToken ''c'' ''Ready'', exampleToken ''d'' ''Ready'']"
  let ?cl = "exampleClient ?items [] Map.empty"
  have parse: "RepoUrlParser exampleLookup (RepoUrl exampleMatchable)
                 = Inr \<lparr>Host = ''gitlab.com'', Path = ''/org/repo''\<rparr>"
    by (simp add: exampleLookup_def)
  have list: "List_SPIAccessToken ?cl (ObjNamespace exampleMatchable)
                 [(ServiceProviderTypeLabel, ServiceProviderType exampleLookup),
                  (ServiceProviderHostLabel, Host \<lparr>Host = ''gitlab.com'', Path = ''/org/repo''\<rparr>)] = Inr ?items"
    by (simp add: exampleClient_def)
  have failing: "\<exists>t \<in> set ?items. Phase t = SPIAccessTokenPhaseReady
                   \<and> candidateError exampleLookup exampleMatchable t \<noteq> None"
    by (simp add: exampleToken_def SPIAccessTokenPhaseReady_def candidateError_def exampleLookup_def)
  have count: "length (filter (\<lambda>t. Phase t = SPIAccessTokenPhaseReady
                    \<and> candidateError exampleLookup exampleMatchable t \<noteq> None) ?items) = 2"
    by (simp add: exampleToken_def SPIAccessTokenPhaseReady_def candidateError_def exampleLookup_def)
  have run: "fst (Lookup exampleLookup ?cl [2] exampleMatchable)
     = (None, Some (Wrap ''errors while examining the potential matches''
                      (Aggregate [External ''filter'', External ''cache''])))"
    by (simp add: Lookup_def exampleLookup_def exampleClient_def exampleMatchable_def exampleToken_def
        examine_def goroutine_def SPIAccessTokenPhaseReady_def Let_def NewAggregate_def Errorf_w_def)
  from Lookup_aggregates_every_failure[OF parse list failing, of "[2]"]
  obtain es where agg: "fst (Lookup exampleLookup ?cl [2] exampleMatchable)
                = (None, Some (Wrap ''errors while examining the potential matches'' (Aggregate es)))"
    and len: "length es = length (filter (\<lambda>t. Phase t = SPIAccessTokenPhaseReady
                    \<and> candidateError exampleLookup exampleMatchable t \<noteq> None) ?items)"
    by blast
  from len count have "length es = 2" by (simp only:)
  with agg have "\<exists>es. fst (Lookup exampleLookup ?cl [2] exampleMatchable)
                = (None, Some (Wrap ''errors while examining the potential matches'' (Aggregate es)))
                \<and> length es = 2" by blast
  with run show ?thesis by (rule conjI)
qed

text \<open>
  C5. Every token in the list \<open>Lookup\<close> returns has the phase \<open>Ready\<close>. A
  candidate that is not ready is not evaluated and cannot make the call fail: once the
  URL parses and the tokens are listed, \<open>Lookup\<close> returns without error exactly
  when the evaluation of no ready candidate fails.
\<close>

theorem Lookup_only_ready:
  "(\<forall>t \<in> set (slice (fst (fst (Lookup l cl sched matchable)))). Phase t = SPIAccessTokenPhaseReady)
   \<and> (\<forall>repoUrl items.
         RepoUrlParser l (RepoUrl matchable) = Inr repoUrl
         \<longrightarrow> List_SPIAccessToken cl (ObjNamespace matchable)
               [(ServiceProviderTypeLabel, ServiceProviderType l),
                (ServiceProviderHostLabel, Host repoUrl)] = Inr items
         \<longrightarrow> (snd (fst (Lookup l cl sched matchable)) = None)
               = (\<forall>t \<in> set items. Phase t = SPIAccessTokenPhaseReady
                                     \<longrightarrow> candidateError l matchable t = None))"
proof
  show "\<forall>t \<in> set (slice (fst (fst (Lookup l cl sched matchable)))). Phase t = SPIAccessTokenPhaseReady"
    by (auto simp: Lookup_def Let_def slice_def examine_result_ready split: sum.splits)
next
  show "\<forall>repoUrl items.
         RepoUrlParser l (RepoUrl matchable) = Inr repoUrl
         \<longrightarrow> List_SPIAccessToken cl (ObjNamespace matchable)
               [(ServiceProviderTypeLabel, ServiceProviderType l),
                (ServiceProviderHostLabel, Host repoUrl)] = Inr items
         \<longrightarrow> (snd (fst (Lookup l cl sched matchable)) = None)
               = (\<forall>t \<in> set items. Phase t = SPIAccessTokenPhaseReady
                                     \<longrightarrow> candidateError l matchable t = None)"
  proof (intro allI impI)
    fix repoUrl items
    assume parse: "RepoUrlParser l (RepoUrl matchable) = Inr repoUrl"
      and list: "List_SPIAccessToken cl (ObjNamespace matchable)
               [(ServiceProviderTypeLabel, ServiceProviderType l),
                (ServiceProviderHostLabel, Host repoUrl)] = Inr items"
    let ?es = "errs (examine l sched matchable items)"
    have "(?es = []) = (mset ?es = {#})" by simp
    also have "\<dots> = (List.map_filter (candidateError l matchable)
                       (filter (\<lambda>t. Phase t = SPIAccessTokenPhaseReady) items) = [])"
      unfolding examine_errs by simp
    also have "\<dots> = (\<forall>t \<in> set items. Phase t = SPIAccessTokenPhaseReady
                                     \<longrightarrow> candidateError l matchable t = None)"
      by (auto simp: map_filter_def filter_empty_conv)
    finally have e: "(?es = []) = (\<forall>t \<in> set items. Phase t = SPIAccessTokenPhaseReady
                                     \<longrightarrow> candidateError l matchable t = None)" .
    have "(snd (fst (Lookup l cl sched matchable)) = None) = (?es = [])"
      using parse list by (simp add: Lookup_def Let_def)
    with e show "(snd (fst (Lookup l cl sched matchable)) = None)
               = (\<forall>t \<in> set items. Phase t = SPIAccessTokenPhaseReady
                                     \<longrightarrow> candidateError l matchable t = None)" by simp
  qed
qed

theorem Lookup_only_ready_witness:
  "fst (Lookup exampleLookup
          (exampleClient [exampleToken ''a'' ''Ready'', exampleToken ''b'' ''AwaitingTokenData'',
                          exampleToken ''e'' ''Ready'', exampleToken ''f'' ''Ready''] [] Map.empty)
          [1] exampleMatchable)
     = (Some [(exampleToken ''e'' ''Ready'')\<lparr>TokenMetadata := Some ''fresh''\<rparr>,
              (exampleToken ''a'' ''Ready'')\<lparr>TokenMetadata := Some ''fresh''\<rparr>], None)
   \<and> candidateError exampleLookup exampleMatchable (exampleToken ''b'' ''AwaitingTokenData'')
       = Some (External ''cache'')
   \<and> Phase ((exampleToken ''e'' ''Ready'')\<lparr>TokenMetadata := Some ''fresh''\<rparr>) = SPIAccessTokenPhaseReady
   \<and> Phase ((exampleToken ''a'' ''Ready'')\<lparr>TokenMetadata := Some ''fresh''\<rparr>) = SPIAccessTokenPhaseReady
   \<and> candidateError exampleLookup exampleMatchable (exampleToken ''a'' ''Ready'') = None
   \<and> candidateError exampleLookup exampleMatchable (exampleToken ''e'' ''Ready'') = None
   \<and> candidateError exampleLookup exampleMatchable (exampleToken ''f'' ''Ready'') = None"
proof -
  let ?items = "[exampleToken ''a'' ''Ready'', exampleToken ''b'' ''AwaitingTokenData'',
                 exampleToken ''e'' ''Ready'', exampleToken ''f'' ''Ready'']"
  let ?cl = "exampleClient ?items [] Map.empty"
  let ?a = "(exampleToken ''a'' ''Ready'')\<lparr>TokenMetadata := Some ''fresh''\<rparr>"
  let ?e = "(exampleToken ''e'' ''Ready'')\<lparr>TokenMetadata := Some ''fresh''\<rparr>"
  have run: "fst (Lookup exampleLookup ?cl [1] exampleMatchable) = (Some [?e, ?a], None)"
    by (simp add: Lookup_def exampleLookup_def exampleClient_def exampleMatchable_def exampleToken_def
        examine_def goroutine_def SPIAccessTokenPhaseReady_def Let_def NewAggregate_def Errorf_w_def)
  have b: "candidateError exampleLookup exampleMatchable (exampleToken ''b'' ''AwaitingTokenData'')
       = Some (External ''cache'')"
    by (simp add: candidateError_def exampleLookup_def exampleToken_def)
  from Lookup_only_ready[of exampleLookup ?cl "[1]" exampleMatchable]
  have "\<forall>t \<in> set (slice (fst (fst (Lookup exampleLookup ?cl [1] exampleMatchable)))).
          Phase t = SPIAccessTokenPhaseReady" by (rule conjunct1)
  then have "\<forall>t \<in> set [?e, ?a]. Phase t = SPIAccessTokenPhaseReady"
    unfolding run by (simp only: fst_conv slice_def option.case)
  then have r: "Phase ?e = SPIAccessTokenPhaseReady \<and> Phase ?a = SPIAccessTokenPhaseReady"
    by (simp only: list.set ball_simps simp_thms)
  have parse: "RepoUrlParser exampleLookup (RepoUrl exampleMatchable)
                 = Inr \<lparr>Host = ''gitlab.com'', Path = ''/org/repo''\<rparr>"
    by (simp add: exampleLookup_def)
  have list: "List_SPIAccessToken ?cl (ObjNamespace exampleMatchable)
                 [(ServiceProviderTypeLabel, ServiceProviderType exampleLookup),
                  (ServiceProviderHostLabel, Host \<lparr>Host = ''gitlab.com'', Path = ''/org/repo''\<rparr>)] = Inr ?items"
    by (simp add: exampleClient_def)
  from run have noerr: "snd (fst (Lookup exampleLookup ?cl [1] exampleMatchable)) = None"
    by (simp only: snd_conv)
  from Lookup_only_ready[of exampleLookup ?cl "[1]" exampleMatchable]
  have "\<forall>repoUrl items.
         RepoUrlParser exampleLookup (RepoUrl exampleMatchable) = Inr repoUrl
         \<longrightarrow> List_SPIAccessToken ?cl (ObjNamespace exampleMatchable)
               [(ServiceProviderTypeLabel, ServiceProviderType exampleLookup),
                (ServiceProviderHostLabel, Host repoUrl)] = Inr items
         \<longrightarrow> (snd (fst (Lookup exampleLookup ?cl [1] exampleMatchable)) = None)
               = (\<forall>t \<in> set items. Phase t = SPIAccessTokenPhaseReady
                                     \<longrightarrow> candidateError exampleLookup exampleMatchable t = None)"
    by (rule conjunct2)
  with parse list have "(snd (fst (Lookup exampleLookup ?cl [1] exampleMatchable)) = None)
               = (\<forall>t \<in> set ?items. Phase t = SPIAccessTokenPhaseReady
                                     \<longrightarrow> candidateError exampleLookup exampleMatchable t = None)"
    by blast
  with noerr have q: "\<forall>t \<in> set ?items. Phase t = SPIAccessTokenPhaseReady
                                     \<longrightarrow> candidateError exampleLookup exampleMatchable t = None"
    by blast
  have ph: "Phase (exampleToken ''a'' ''Ready'') = SPIAccessTokenPhaseReady"
    "Phase (exampleToken ''e'' ''Ready'') = SPIAccessTokenPhaseReady"
    "Phase (exampleToken ''f'' ''Ready'') = SPIAccessTokenPhaseReady"
    by (simp_all add: exampleToken_def SPIAccessTokenPhaseReady_def)
  from q ph have ca: "candidateError exampleLookup exampleMatchable (exampleToken ''a'' ''Ready'') = None"
    by (simp only: list.set ball_simps simp_thms)
  from q ph have ce: "candidateError exampleLookup exampleMatchable (exampleToken ''e'' ''Ready'') = None"
    by (simp only: list.set ball_simps simp_thms)
  from q ph have cf: "candidateError exampleLookup exampleMatchable (exampleToken ''f'' ''Ready'') = None"
    by (simp only: list.set ball_simps simp_thms)
  from run b r ca ce cf show ?thesis by (intro conjI) (simp_all only: simp_thms)
qed

section \<open>The remote secrets: properties\<close>

lemma scopeLoop_find:
  "scopeLoop values repoUrl dflt rss
     = (case find (scopeMatches values repoUrl) rss of Some rs \<Rightarrow> rs | None \<Rightarrow> dflt)"
  by (induction rss) (simp_all add: scopeMatches_def slices_Contains_def Let_def)

lemma matchingRemoteSecret_find:
  "matchingRemoteSecret values repoUrl rss
     = (case find (scopeMatches values repoUrl) rss of Some rs \<Rightarrow> rs | None \<Rightarrow> rss ! 0)"
  by (simp add: matchingRemoteSecret_def scopeLoop_find)

lemma matchingRemoteSecret_single: "matchingRemoteSecret values repoUrl [rs] = rs"
  by (simp add: matchingRemoteSecret_def Let_def)

lemma find_None_set: "(find P xs = None) = (\<forall>x \<in> set xs. \<not> P x)"
  by (auto simp: find_None_iff)

text \<open>
  C3. From a list of filtered remote secrets that is not empty,
  \<open>lookupRemoteSecretSecret\<close> chooses the first one whose repository annotation, read
  as a list of paths, holds the path of the request without its leading slash, and the
  first of the list when there is none. So a remote secret with a matching scope is
  chosen wherever it stands in the list, and the target secret is looked up for the
  chosen remote secret alone.
\<close>

theorem matchingRemoteSecret_prefers_scope:
  assumes nonempty: "remoteSecrets \<noteq> []"
  shows "matchingRemoteSecret values repoUrl remoteSecrets
           = (case find (scopeMatches values repoUrl) remoteSecrets of
                Some rs \<Rightarrow> rs | None \<Rightarrow> remoteSecrets ! 0)
         \<and> matchingRemoteSecret values repoUrl remoteSecrets \<in> set remoteSecrets
         \<and> ((\<exists>rs \<in> set remoteSecrets. scopeMatches values repoUrl rs)
              \<longrightarrow> scopeMatches values repoUrl (matchingRemoteSecret values repoUrl remoteSecrets))
         \<and> ((\<forall>rs \<in> set remoteSecrets. \<not> scopeMatches values repoUrl rs)
              \<longrightarrow> matchingRemoteSecret values repoUrl remoteSecrets = remoteSecrets ! 0)
         \<and> (RepoUrlParser l (RepoUrl matchable) = Inr repoUrl
              \<longrightarrow> lookupRemoteSecretSecret values l cl matchable remoteSecrets
                  = lookupRemoteSecretSecret values l cl matchable
                      [matchingRemoteSecret values repoUrl remoteSecrets])"
proof (intro conjI)
  let ?chosen = "matchingRemoteSecret values repoUrl remoteSecrets"
  show eq: "?chosen = (case find (scopeMatches values repoUrl) remoteSecrets of
                Some rs \<Rightarrow> rs | None \<Rightarrow> remoteSecrets ! 0)"
    by (rule matchingRemoteSecret_find)
  show "?chosen \<in> set remoteSecrets"
  proof (cases "find (scopeMatches values repoUrl) remoteSecrets")
    case None
    with eq have "?chosen = remoteSecrets ! 0" by simp
    with nonempty show ?thesis by (cases remoteSecrets) simp_all
  next
    case (Some rs)
    then have "rs \<in> set remoteSecrets" by (auto simp: find_Some_iff)
    with Some eq show ?thesis by simp
  qed
  show "(\<exists>rs \<in> set remoteSecrets. scopeMatches values repoUrl rs)
              \<longrightarrow> scopeMatches values repoUrl ?chosen"
  proof
    assume "\<exists>rs \<in> set remoteSecrets. scopeMatches values repoUrl rs"
    then have "find (scopeMatches values repoUrl) remoteSecrets \<noteq> None"
      by (simp add: find_None_set)
    then obtain rs where f: "find (scopeMatches values repoUrl) remoteSecrets = Some rs" by blast
    then have "scopeMatches values repoUrl rs" by (auto simp: find_Some_iff)
    with f eq show "scopeMatches values repoUrl ?chosen" by simp
  qed
  show "(\<forall>rs \<in> set remoteSecrets. \<not> scopeMatches values repoUrl rs)
              \<longrightarrow> ?chosen = remoteSecrets ! 0"
  proof
    assume "\<forall>rs \<in> set remoteSecrets. \<not> scopeMatches values repoUrl rs"
    then have "find (scopeMatches values repoUrl) remoteSecrets = None"
      by (simp add: find_None_set)
    with eq show "?chosen = remoteSecrets ! 0" by simp
  qed
  show "RepoUrlParser l (RepoUrl matchable) = Inr repoUrl
              \<longrightarrow> lookupRemoteSecretSecret values l cl matchable remoteSecrets
                  = lookupRemoteSecretSecret values l cl matchable [?chosen]"
    using nonempty
    by (simp add: lookupRemoteSecretSecret_def matchingRemoteSecret_single Let_def)
qed

lemma targetLoop_none:
  "(\<forall>t \<in> set targets. \<not> isLocalNamespaceTarget ns t) \<Longrightarrow> targetLoop i targets ns = -1"
  by (induction targets arbitrary: i) (auto simp: isLocalNamespaceTarget_def)

lemma targetLoop_first:
  "k < length targets \<Longrightarrow> isLocalNamespaceTarget ns (targets ! k)
     \<Longrightarrow> (\<forall>j < k. \<not> isLocalNamespaceTarget ns (targets ! j))
     \<Longrightarrow> targetLoop i targets ns = i + int k"
proof (induction targets arbitrary: i k)
  case Nil
  then show ?case by simp
next
  case (Cons t targets)
  show ?case
  proof (cases k)
    case 0
    with Cons.prems show ?thesis by (simp add: isLocalNamespaceTarget_def)
  next
    case (Suc k')
    with Cons.prems have "\<not> isLocalNamespaceTarget ns t" by auto
    moreover have "targetLoop (i + 1) targets ns = (i + 1) + int k'"
      using Cons.prems Suc by (intro Cons.IH) auto
    ultimately show ?thesis using Suc by (auto simp: isLocalNamespaceTarget_def)
  qed
qed


lemma lookupRemoteSecretSecret_found:
  assumes ne: "remoteSecrets \<noteq> []"
    and parse: "RepoUrlParser l (RepoUrl matchable) = Inr repoUrl"
    and k: "k < length (Targets (matchingRemoteSecret values repoUrl remoteSecrets))"
    and loc: "isLocalNamespaceTarget (ObjNamespace matchable)
                (Targets (matchingRemoteSecret values repoUrl remoteSecrets) ! k)"
    and first: "\<forall>j < k. \<not> isLocalNamespaceTarget (ObjNamespace matchable)
                  (Targets (matchingRemoteSecret values repoUrl remoteSecrets) ! j)"
  shows "lookupRemoteSecretSecret values l cl matchable remoteSecrets
           = (case Get_Secret cl (ObjNamespace matchable)
                     (SecretName (Targets (matchingRemoteSecret values repoUrl remoteSecrets) ! k)) of
                Inl e \<Rightarrow> (None, Some (Wrap ''unable to find Secret created by RemoteSecret'' e))
              | Inr secret \<Rightarrow> (Some secret, None),
              [CallGetSecret (ObjNamespace matchable)
                 (SecretName (Targets (matchingRemoteSecret values repoUrl remoteSecrets) ! k))])"
proof -
  let ?chosen = "matchingRemoteSecret values repoUrl remoteSecrets"
  have idx: "getLocalNamespaceTargetIndex (Targets ?chosen) (ObjNamespace matchable) = int k"
    using targetLoop_first[OF k loc first, of 0] by (simp add: getLocalNamespaceTargetIndex_def)
  show ?thesis
    using ne parse k by (simp add: lookupRemoteSecretSecret_def Let_def idx split: sum.splits)
qed

lemma lookupRemoteSecretSecret_missing:
  assumes ne: "remoteSecrets \<noteq> []"
    and parse: "RepoUrlParser l (RepoUrl matchable) = Inr repoUrl"
    and none: "\<forall>t \<in> set (Targets (matchingRemoteSecret values repoUrl remoteSecrets)).
                \<not> isLocalNamespaceTarget (ObjNamespace matchable) t"
  shows "lookupRemoteSecretSecret values l cl matchable remoteSecrets
           = ((None, Some missingTargetError), [])"
proof -
  have idx: "getLocalNamespaceTargetIndex (Targets (matchingRemoteSecret values repoUrl remoteSecrets))
               (ObjNamespace matchable) = -1"
    using none by (simp add: getLocalNamespaceTargetIndex_def targetLoop_none)
  show ?thesis using ne parse idx by (simp add: lookupRemoteSecretSecret_def Let_def)
qed

text \<open>
  C4. \<open>getLocalNamespaceTargetIndex\<close> returns the index of the first target with
  an empty API URL, an empty error and the namespace asked for: the index of that
  target when there is exactly one, and -1 when there is none. Resolution applies it to
  the targets of the chosen remote secret. When such a target exists,
  \<open>lookupRemoteSecretSecret\<close> gets the secret that this target names, in the
  caller's namespace, and nothing else, and \<open>LookupCredentials\<close> builds the
  credentials from that secret. When none exists, \<open>lookupRemoteSecretSecret\<close>
  makes no call and fails with \<open>missingTargetError\<close>, and so does
  \<open>LookupCredentials\<close> when no token matched.
\<close>

theorem missing_local_target:
  "((\<forall>t \<in> set targets. \<not> isLocalNamespaceTarget namespace t)
      \<longrightarrow> getLocalNamespaceTargetIndex targets namespace = -1)
   \<and> (\<forall>k < length targets.
         isLocalNamespaceTarget namespace (targets ! k)
         \<longrightarrow> (\<forall>j < k. \<not> isLocalNamespaceTarget namespace (targets ! j))
         \<longrightarrow> getLocalNamespaceTargetIndex targets namespace = int k)
   \<and> (\<forall>remoteSecrets repoUrl.
         fst (Lookup l cl sched matchable) = (Some [], None)
         \<longrightarrow> fst (lookupRemoteSecrets l cl matchable) = (Some remoteSecrets, None)
         \<longrightarrow> remoteSecrets \<noteq> []
         \<longrightarrow> RepoUrlParser l (RepoUrl matchable) = Inr repoUrl
         \<longrightarrow> (\<forall>t \<in> set (Targets (matchingRemoteSecret values repoUrl remoteSecrets)).
                \<not> isLocalNamespaceTarget (ObjNamespace matchable) t)
         \<longrightarrow> fst (LookupCredentials values l cl sched matchable) = (None, Some missingTargetError))
   \<and> (\<forall>remoteSecrets repoUrl.
         remoteSecrets \<noteq> []
         \<longrightarrow> RepoUrlParser l (RepoUrl matchable) = Inr repoUrl
         \<longrightarrow> (\<forall>t \<in> set (Targets (matchingRemoteSecret values repoUrl remoteSecrets)).
                \<not> isLocalNamespaceTarget (ObjNamespace matchable) t)
         \<longrightarrow> lookupRemoteSecretSecret values l cl matchable remoteSecrets
             = ((None, Some missingTargetError), []))
   \<and> (\<forall>remoteSecrets repoUrl k.
         remoteSecrets \<noteq> []
         \<longrightarrow> RepoUrlParser l (RepoUrl matchable) = Inr repoUrl
         \<longrightarrow> k < length (Targets (matchingRemoteSecret values repoUrl remoteSecrets))
         \<longrightarrow> isLocalNamespaceTarget (ObjNamespace matchable)
               (Targets (matchingRemoteSecret values repoUrl remoteSecrets) ! k)
         \<longrightarrow> (\<forall>j < k. \<not> isLocalNamespaceTarget (ObjNamespace matchable)
                          (Targets (matchingRemoteSecret values repoUrl remoteSecrets) ! j))
         \<longrightarrow> lookupRemoteSecretSecret values l cl matchable remoteSecrets
             = (case Get_Secret cl (ObjNamespace matchable)
                       (SecretName (Targets (matchingRemoteSecret values repoUrl remoteSecrets) ! k)) of
                  Inl e \<Rightarrow> (None, Some (Wrap ''unable to find Secret created by RemoteSecret'' e))
                | Inr secret \<Rightarrow> (Some secret, None),
                [CallGetSecret (ObjNamespace matchable)
                   (SecretName (Targets (matchingRemoteSecret values repoUrl remoteSecrets) ! k))]))
   \<and> (\<forall>remoteSecrets repoUrl k secret.
         fst (Lookup l cl sched matchable) = (Some [], None)
         \<longrightarrow> fst (lookupRemoteSecrets l cl matchable) = (Some remoteSecrets, None)
         \<longrightarrow> remoteSecrets \<noteq> []
         \<longrightarrow> RepoUrlParser l (RepoUrl matchable) = Inr repoUrl
         \<longrightarrow> k < length (Targets (matchingRemoteSecret values repoUrl remoteSecrets))
         \<longrightarrow> isLocalNamespaceTarget (ObjNamespace matchable)
               (Targets (matchingRemoteSecret values repoUrl remoteSecrets) ! k)
         \<longrightarrow> (\<forall>j < k. \<not> isLocalNamespaceTarget (ObjNamespace matchable)
                          (Targets (matchingRemoteSecret values repoUrl remoteSecrets) ! j))
         \<longrightarrow> Get_Secret cl (ObjNamespace matchable)
               (SecretName (Targets (matchingRemoteSecret values repoUrl remoteSecrets) ! k))
             = Inr secret
         \<longrightarrow> LookupCredentials values l cl sched matchable
             = ((Some \<lparr>Username = (case Data secret ''username'' of None \<Rightarrow> [] | Some v \<Rightarrow> v),
                       Token = (case Data secret ''password'' of None \<Rightarrow> [] | Some v \<Rightarrow> v)\<rparr>, None),
                snd (Lookup l cl sched matchable) @ snd (lookupRemoteSecrets l cl matchable)
                  @ [CallGetSecret (ObjNamespace matchable)
                       (SecretName (Targets (matchingRemoteSecret values repoUrl remoteSecrets) ! k))]))"
proof (intro conjI allI impI)
  assume "\<forall>t \<in> set targets. \<not> isLocalNamespaceTarget namespace t"
  then show "getLocalNamespaceTargetIndex targets namespace = -1"
    by (simp add: getLocalNamespaceTargetIndex_def targetLoop_none)
next
  fix k
  assume "k < length targets" "isLocalNamespaceTarget namespace (targets ! k)"
    "\<forall>j < k. \<not> isLocalNamespaceTarget namespace (targets ! j)"
  then show "getLocalNamespaceTargetIndex targets namespace = int k"
    using targetLoop_first[of k targets namespace 0]
    by (simp add: getLocalNamespaceTargetIndex_def)
next
  fix remoteSecrets repoUrl
  assume lk: "fst (Lookup l cl sched matchable) = (Some [], None)"
    and rs: "fst (lookupRemoteSecrets l cl matchable) = (Some remoteSecrets, None)"
    and ne: "remoteSecrets \<noteq> []"
    and parse: "RepoUrlParser l (RepoUrl matchable) = Inr repoUrl"
    and none: "\<forall>t \<in> set (Targets (matchingRemoteSecret values repoUrl remoteSecrets)).
                \<not> isLocalNamespaceTarget (ObjNamespace matchable) t"
  from lk obtain c1 where L: "Lookup l cl sched matchable = ((Some [], None), c1)"
    by (metis prod.collapse)
  from rs obtain c2 where R: "lookupRemoteSecrets l cl matchable = ((Some remoteSecrets, None), c2)"
    by (metis prod.collapse)
  note S = lookupRemoteSecretSecret_missing[OF ne parse none, of cl]
  show "fst (LookupCredentials values l cl sched matchable) = (None, Some missingTargetError)"
    by (simp add: LookupCredentials_def L R S slice_def)
next
  fix remoteSecrets repoUrl
  assume "remoteSecrets \<noteq> []" "RepoUrlParser l (RepoUrl matchable) = Inr repoUrl"
    "\<forall>t \<in> set (Targets (matchingRemoteSecret values repoUrl remoteSecrets)).
                \<not> isLocalNamespaceTarget (ObjNamespace matchable) t"
  then show "lookupRemoteSecretSecret values l cl matchable remoteSecrets
             = ((None, Some missingTargetError), [])"
    by (rule lookupRemoteSecretSecret_missing)
next
  fix remoteSecrets repoUrl k
  assume "remoteSecrets \<noteq> []" "RepoUrlParser l (RepoUrl matchable) = Inr repoUrl"
    "k < length (Targets (matchingRemoteSecret values repoUrl remoteSecrets))"
    "isLocalNamespaceTarget (ObjNamespace matchable)
               (Targets (matchingRemoteSecret values repoUrl remoteSecrets) ! k)"
    "\<forall>j < k. \<not> isLocalNamespaceTarget (ObjNamespace matchable)
                          (Targets (matchingRemoteSecret values repoUrl remoteSecrets) ! j)"
  then show "lookupRemoteSecretSecret values l cl matchable remoteSecrets
             = (case Get_Secret cl (ObjNamespace matchable)
                       (SecretName (Targets (matchingRemoteSecret values repoUrl remoteSecrets) ! k)) of
                  Inl e \<Rightarrow> (None, Some (Wrap ''unable to find Secret created by RemoteSecret'' e))
                | Inr secret \<Rightarrow> (Some secret, None),
                [CallGetSecret (ObjNamespace matchable)
                   (SecretName (Targets (matchingRemoteSecret values repoUrl remoteSecrets) ! k))])"
    by (rule lookupRemoteSecretSecret_found)
next
  fix remoteSecrets repoUrl k secret
  assume lk: "fst (Lookup l cl sched matchable) = (Some [], None)"
    and rs: "fst (lookupRemoteSecrets l cl matchable) = (Some remoteSecrets, None)"
    and ne: "remoteSecrets \<noteq> []"
    and parse: "RepoUrlParser l (RepoUrl matchable) = Inr repoUrl"
    and k: "k < length (Targets (matchingRemoteSecret values repoUrl remoteSecrets))"
    and loc: "isLocalNamespaceTarget (ObjNamespace matchable)
               (Targets (matchingRemoteSecret values repoUrl remoteSecrets) ! k)"
    and first: "\<forall>j < k. \<not> isLocalNamespaceTarget (ObjNamespace matchable)
                          (Targets (matchingRemoteSecret values repoUrl remoteSecrets) ! j)"
    and got: "Get_Secret cl (ObjNamespace matchable)
               (SecretName (Targets (matchingRemoteSecret values repoUrl remoteSecrets) ! k))
             = Inr secret"
  from lk obtain c1 where L: "Lookup l cl sched matchable = ((Some [], None), c1)"
    by (metis prod.collapse)
  from rs obtain c2 where R: "lookupRemoteSecrets l cl matchable = ((Some remoteSecrets, None), c2)"
    by (metis prod.collapse)
  note S = lookupRemoteSecretSecret_found[OF ne parse k loc first, of cl]
  show "LookupCredentials values l cl sched matchable
             = ((Some \<lparr>Username = (case Data secret ''username'' of None \<Rightarrow> [] | Some v \<Rightarrow> v),
                       Token = (case Data secret ''password'' of None \<Rightarrow> [] | Some v \<Rightarrow> v)\<rparr>, None),
                snd (Lookup l cl sched matchable) @ snd (lookupRemoteSecrets l cl matchable)
                  @ [CallGetSecret (ObjNamespace matchable)
                       (SecretName (Targets (matchingRemoteSecret values repoUrl remoteSecrets) ! k))])"
    by (simp add: LookupCredentials_def L R S got slice_def index_map_def
        BasicAuthUsernameKey_def BasicAuthPasswordKey_def)
qed

lemma exampleLookup_scoped_secret:
  "lookupRemoteSecretSecret exampleValues exampleLookup (exampleClient items rss exampleSecrets)
       exampleMatchable
       [exampleRemoteSecret ''scoped'' (Some ''org/other,org/repo'')
          [exampleTarget [] ''team'' ''scoped-secret'']]
     = ((Some \<lparr>Secret_Name = ''scoped-secret'', Data = [''username'' \<mapsto> ''bob'']\<rparr>, None),
        [CallGetSecret ''team'' ''scoped-secret''])"
  by (simp add: lookupRemoteSecretSecret_def exampleLookup_def matchingRemoteSecret_single Let_def
       exampleRemoteSecret_def exampleTarget_def getLocalNamespaceTargetIndex_def exampleMatchable_def
       exampleClient_def exampleSecrets_def)

lemma exampleLookup_no_tokens:
  "Lookup exampleLookup (exampleClient [] rss secrets) sched exampleMatchable
     = ((Some [], None),
        [CallListSPIAccessToken ''team'' [(ServiceProviderTypeLabel, ''GitLab''),
                                          (ServiceProviderHostLabel, ''gitlab.com'')]])"
  by (simp add: Lookup_def exampleLookup_def exampleClient_def exampleMatchable_def examine_def Let_def)

lemma exampleLookup_remoteSecrets:
  "lookupRemoteSecrets exampleLookup (exampleClient items rss secrets) exampleMatchable
     = ((Some rss, None), [CallListRemoteSecret ''team'' [(RSServiceProviderHostLabel, ''gitlab.com'')]])"
proof -
  have "filterRemoteSecrets exampleLookup exampleMatchable rss = rss"
    by (induction rss) (simp_all add: exampleLookup_def)
  then show ?thesis
    by (simp add: lookupRemoteSecrets_def exampleLookup_def exampleClient_def exampleMatchable_def Let_def)
qed


lemma Lookup_calls:
  "c \<in> set (snd (Lookup l cl sched matchable)) \<Longrightarrow> \<exists>ns ls. c = CallListSPIAccessToken ns ls"
  by (auto simp: Lookup_def Let_def split: sum.splits if_splits)

lemma Lookup_not_nil:
  "fst (Lookup l cl sched matchable) \<noteq> (None, None)"
  by (auto simp: Lookup_def Let_def split: sum.splits if_splits)

lemma Lookup_ok_parse:
  "snd (fst (Lookup l cl sched matchable)) = None \<Longrightarrow> \<exists>u. RepoUrlParser l (RepoUrl matchable) = Inr u"
  by (auto simp: Lookup_def Let_def split: sum.splits if_splits)

lemma lookupRemoteSecrets_calls:
  "RepoUrlParser l (RepoUrl matchable) = Inr u
     \<Longrightarrow> snd (lookupRemoteSecrets l cl matchable)
           = [CallListRemoteSecret (ObjNamespace matchable) [(RSServiceProviderHostLabel, Host u)]]"
  by (auto simp: lookupRemoteSecrets_def Let_def split: sum.splits)

lemma LookupCredentials_error:
  "snd (fst (Lookup l cl sched matchable)) = Some e
     \<Longrightarrow> LookupCredentials values l cl sched matchable = ((None, Some e), snd (Lookup l cl sched matchable))"
  by (cases "Lookup l cl sched matchable") (auto simp: LookupCredentials_def)

lemma LookupCredentials_tokens:
  "fst (Lookup l cl sched matchable) = (Some (t # ts), None)
     \<Longrightarrow> LookupCredentials values l cl sched matchable
           = ((case TokenStorage l t of
                 Inl e \<Rightarrow> (None, Some (Wrap ''failed to get token data'' e))
               | Inr None \<Rightarrow> (None, Some accessTokenNotFoundError)
               | Inr (Some tokenData) \<Rightarrow>
                   (Some \<lparr>Username = Token_Username tokenData, Token = AccessToken tokenData\<rparr>, None)),
              snd (Lookup l cl sched matchable))"
  by (cases "Lookup l cl sched matchable")
     (auto simp: LookupCredentials_def slice_def split: sum.splits option.splits)

lemma LookupCredentials_remote:
  "fst (Lookup l cl sched matchable) = (Some [], None)
     \<Longrightarrow> LookupCredentials values l cl sched matchable
           = (case lookupRemoteSecrets l cl matchable of
                ((remoteSecrets, Some e), c2) \<Rightarrow> ((None, Some e), snd (Lookup l cl sched matchable) @ c2)
              | ((remoteSecrets, None), c2) \<Rightarrow>
                  (case lookupRemoteSecretSecret values l cl matchable (slice remoteSecrets) of
                     ((secret, Some e), c3) \<Rightarrow> ((None, Some e), snd (Lookup l cl sched matchable) @ c2 @ c3)
                   | ((None, None), c3) \<Rightarrow> ((None, None), snd (Lookup l cl sched matchable) @ c2 @ c3)
                   | ((Some secret, None), c3) \<Rightarrow>
                       ((Some \<lparr>Username = index_map (Data secret) BasicAuthUsernameKey,
                               Token = index_map (Data secret) BasicAuthPasswordKey\<rparr>, None),
                        snd (Lookup l cl sched matchable) @ c2 @ c3)))"
  by (cases "Lookup l cl sched matchable")
     (auto simp: LookupCredentials_def slice_def split: prod.splits option.splits)

lemma LookupCredentials_remote_calls:
  assumes "fst (Lookup l cl sched matchable) = (Some [], None)"
  shows "set (snd (lookupRemoteSecrets l cl matchable))
           \<subseteq> set (snd (LookupCredentials values l cl sched matchable))"
  unfolding LookupCredentials_remote[OF assms]
  by (auto split: prod.splits option.splits)

theorem matchingRemoteSecret_prefers_scope_witness:
  "[exampleRemoteSecret ''plain'' None [exampleTarget [] ''team'' ''plain-secret''],
    exampleRemoteSecret ''scoped'' (Some ''org/other,org/repo'') [exampleTarget [] ''team'' ''scoped-secret'']] \<noteq> []
   \<and> \<not> scopeMatches exampleValues \<lparr>Host = ''gitlab.com'', Path = ''/org/repo''\<rparr>
         (exampleRemoteSecret ''plain'' None [exampleTarget [] ''team'' ''plain-secret''])
   \<and> matchingRemoteSecret exampleValues \<lparr>Host = ''gitlab.com'', Path = ''/org/repo''\<rparr>
       [exampleRemoteSecret ''plain'' None [exampleTarget [] ''team'' ''plain-secret''],
        exampleRemoteSecret ''scoped'' (Some ''org/other,org/repo'') [exampleTarget [] ''team'' ''scoped-secret'']]
     = exampleRemoteSecret ''scoped'' (Some ''org/other,org/repo'') [exampleTarget [] ''team'' ''scoped-secret'']
   \<and> matchingRemoteSecret exampleValues \<lparr>Host = ''gitlab.com'', Path = ''/org/none''\<rparr>
       [exampleRemoteSecret ''plain'' None [exampleTarget [] ''team'' ''plain-secret''],
        exampleRemoteSecret ''scoped'' (Some ''org/other,org/repo'') [exampleTarget [] ''team'' ''scoped-secret'']]
     = exampleRemoteSecret ''plain'' None [exampleTarget [] ''team'' ''plain-secret'']
   \<and> lookupRemoteSecretSecret exampleValues exampleLookup (exampleClient [] [] exampleSecrets)
       exampleMatchable
       [exampleRemoteSecret ''plain'' None [exampleTarget [] ''team'' ''plain-secret''],
        exampleRemoteSecret ''scoped'' (Some ''org/other,org/repo'') [exampleTarget [] ''team'' ''scoped-secret'']]
     = ((Some \<lparr>Secret_Name = ''scoped-secret'', Data = [''username'' \<mapsto> ''bob'']\<rparr>, None),
        [CallGetSecret ''team'' ''scoped-secret''])"
proof -
  let ?plain = "exampleRemoteSecret ''plain'' None [exampleTarget [] ''team'' ''plain-secret'']"
  let ?scoped = "exampleRemoteSecret ''scoped'' (Some ''org/other,org/repo'')
                   [exampleTarget [] ''team'' ''scoped-secret'']"
  let ?u = "\<lparr>Host = ''gitlab.com'', Path = ''/org/repo''\<rparr>"
  let ?v = "\<lparr>Host = ''gitlab.com'', Path = ''/org/none''\<rparr>"
  have ne: "[?plain, ?scoped] \<noteq> []" by simp
  have vals: "exampleValues ''org/other,org/repo'' = [''org/other'', ''org/repo'']"
    by (simp add: exampleValues_def)
  have empty: "exampleValues [] = []"
    by (simp add: exampleValues_def)
  have trim: "strings_TrimPrefix ''/org/repo'' ''/'' = ''org/repo''"
    by (simp add: strings_TrimPrefix_def strings_HasPrefix_def)
  have trim2: "strings_TrimPrefix ''/org/none'' ''/'' = ''org/none''"
    by (simp add: strings_TrimPrefix_def strings_HasPrefix_def)
  have p: "\<not> scopeMatches exampleValues ?u ?plain"
    by (simp add: scopeMatches_def exampleRemoteSecret_def index_map_def empty)
  have q: "scopeMatches exampleValues ?u ?scoped"
    by (simp add: scopeMatches_def exampleRemoteSecret_def index_map_def vals trim)
  have p': "\<not> scopeMatches exampleValues ?v ?plain"
    by (simp add: scopeMatches_def exampleRemoteSecret_def index_map_def empty)
  have q': "\<not> scopeMatches exampleValues ?v ?scoped"
    by (simp add: scopeMatches_def exampleRemoteSecret_def index_map_def vals trim2)
  from matchingRemoteSecret_prefers_scope[OF ne, of exampleValues ?u]
  have "matchingRemoteSecret exampleValues ?u [?plain, ?scoped]
          = (case find (scopeMatches exampleValues ?u) [?plain, ?scoped] of
               Some rs \<Rightarrow> rs | None \<Rightarrow> [?plain, ?scoped] ! 0)"
    by (rule conjunct1)
  also have "\<dots> = ?scoped" using p q by (simp only: find.simps if_False if_True option.case)
  finally have a: "matchingRemoteSecret exampleValues ?u [?plain, ?scoped] = ?scoped" .
  from matchingRemoteSecret_prefers_scope[OF ne, of exampleValues ?v]
  have "(\<forall>rs \<in> set [?plain, ?scoped]. \<not> scopeMatches exampleValues ?v rs)
              \<longrightarrow> matchingRemoteSecret exampleValues ?v [?plain, ?scoped] = [?plain, ?scoped] ! 0"
    by blast
  moreover have "\<forall>rs \<in> set [?plain, ?scoped]. \<not> scopeMatches exampleValues ?v rs"
    using p' q' by (simp only: list.set ball_simps simp_thms)
  ultimately have "matchingRemoteSecret exampleValues ?v [?plain, ?scoped] = [?plain, ?scoped] ! 0"
    by (rule mp)
  then have b: "matchingRemoteSecret exampleValues ?v [?plain, ?scoped] = ?plain"
    by (simp only: nth_Cons_0)
  have parse: "RepoUrlParser exampleLookup (RepoUrl exampleMatchable) = Inr ?u"
    by (simp add: exampleLookup_def)
  from matchingRemoteSecret_prefers_scope[OF ne, of exampleValues ?u exampleLookup exampleMatchable
         "exampleClient [] [] exampleSecrets"]
  have "RepoUrlParser exampleLookup (RepoUrl exampleMatchable) = Inr ?u
          \<longrightarrow> lookupRemoteSecretSecret exampleValues exampleLookup (exampleClient [] [] exampleSecrets)
                exampleMatchable [?plain, ?scoped]
              = lookupRemoteSecretSecret exampleValues exampleLookup (exampleClient [] [] exampleSecrets)
                  exampleMatchable [matchingRemoteSecret exampleValues ?u [?plain, ?scoped]]"
    by blast
  with parse have "lookupRemoteSecretSecret exampleValues exampleLookup
                      (exampleClient [] [] exampleSecrets) exampleMatchable [?plain, ?scoped]
              = lookupRemoteSecretSecret exampleValues exampleLookup (exampleClient [] [] exampleSecrets)
                  exampleMatchable [matchingRemoteSecret exampleValues ?u [?plain, ?scoped]]"
    by (rule mp[rotated])
  then have c: "lookupRemoteSecretSecret exampleValues exampleLookup
                      (exampleClient [] [] exampleSecrets) exampleMatchable [?plain, ?scoped]
     = ((Some \<lparr>Secret_Name = ''scoped-secret'', Data = [''username'' \<mapsto> ''bob'']\<rparr>, None),
        [CallGetSecret ''team'' ''scoped-secret''])"
    unfolding a by (simp only: exampleLookup_scoped_secret)
  from ne p a b c show ?thesis by (intro conjI)
qed


theorem missing_local_target_witness:
  "getLocalNamespaceTargetIndex
       [exampleTarget ''https://api.other:6443'' ''team'' ''x'',
        (exampleTarget [] ''team'' ''y'')\<lparr>Error := ''denied''\<rparr>,
        exampleTarget [] ''elsewhere'' ''z''] ''team'' = -1
   \<and> getLocalNamespaceTargetIndex
       [exampleTarget ''https://api.other:6443'' ''team'' ''x'',
        exampleTarget [] ''team'' ''y''] ''team'' = 1
   \<and> fst (LookupCredentials exampleValues exampleLookup
            (exampleClient []
               [exampleRemoteSecret ''broken'' None
                  [exampleTarget ''https://api.other:6443'' ''team'' ''x'',
                   (exampleTarget [] ''team'' ''y'')\<lparr>Error := ''denied''\<rparr>,
                   exampleTarget [] ''elsewhere'' ''z'']]
               exampleSecrets)
            [] exampleMatchable)
     = (None, Some missingTargetError)
   \<and> lookupRemoteSecretSecret exampleValues exampleLookup
        (exampleClient [] [] exampleSecrets) exampleMatchable
        [exampleRemoteSecret ''broken'' None
           [exampleTarget ''https://api.other:6443'' ''team'' ''x'',
            (exampleTarget [] ''team'' ''y'')\<lparr>Error := ''denied''\<rparr>,
            exampleTarget [] ''elsewhere'' ''z'']]
     = ((None, Some missingTargetError), [])
   \<and> lookupRemoteSecretSecret exampleValues exampleLookup
        (exampleClient [] [] exampleSecrets) exampleMatchable
        [exampleRemoteSecret ''delivered'' None
           [exampleTarget ''https://api.other:6443'' ''team'' ''plain-secret'',
            (exampleTarget [] ''team'' ''plain-secret'')\<lparr>Error := ''denied''\<rparr>,
            exampleTarget [] ''elsewhere'' ''plain-secret'',
            exampleTarget [] ''team'' ''scoped-secret'']]
     = ((Some \<lparr>Secret_Name = ''scoped-secret'', Data = [''username'' \<mapsto> ''bob'']\<rparr>, None),
        [CallGetSecret ''team'' ''scoped-secret''])
   \<and> LookupCredentials exampleValues exampleLookup
        (exampleClient []
           [exampleRemoteSecret ''delivered'' None
              [exampleTarget ''https://api.other:6443'' ''team'' ''plain-secret'',
               (exampleTarget [] ''team'' ''plain-secret'')\<lparr>Error := ''denied''\<rparr>,
               exampleTarget [] ''elsewhere'' ''plain-secret'',
               exampleTarget [] ''team'' ''scoped-secret'']]
           exampleSecrets)
        [] exampleMatchable
     = ((Some \<lparr>Username = ''bob'', Token = []\<rparr>, None),
        [CallListSPIAccessToken ''team'' [(ServiceProviderTypeLabel, ''GitLab''),
                                          (ServiceProviderHostLabel, ''gitlab.com'')],
         CallListRemoteSecret ''team'' [(RSServiceProviderHostLabel, ''gitlab.com'')],
         CallGetSecret ''team'' ''scoped-secret''])"
proof -
  let ?bad = "[exampleTarget ''https://api.other:6443'' ''team'' ''x'',
               (exampleTarget [] ''team'' ''y'')\<lparr>Error := ''denied''\<rparr>,
               exampleTarget [] ''elsewhere'' ''z'']"
  let ?good = "[exampleTarget ''https://api.other:6443'' ''team'' ''x'', exampleTarget [] ''team'' ''y'']"
  let ?tgs = "[exampleTarget ''https://api.other:6443'' ''team'' ''plain-secret'',
               (exampleTarget [] ''team'' ''plain-secret'')\<lparr>Error := ''denied''\<rparr>,
               exampleTarget [] ''elsewhere'' ''plain-secret'',
               exampleTarget [] ''team'' ''scoped-secret'']"
  let ?rss = "[exampleRemoteSecret ''broken'' None ?bad]"
  let ?rsd = "[exampleRemoteSecret ''delivered'' None ?tgs]"
  let ?cl = "exampleClient [] ?rss exampleSecrets"
  let ?cle = "exampleClient [] [] exampleSecrets"
  let ?cld = "exampleClient [] ?rsd exampleSecrets"
  let ?u = "\<lparr>Host = ''gitlab.com'', Path = ''/org/repo''\<rparr>"
  let ?secret = "\<lparr>Secret_Name = ''scoped-secret'', Data = [''username'' \<mapsto> ''bob'']\<rparr>"
  have none: "\<forall>t \<in> set ?bad. \<not> isLocalNamespaceTarget ''team'' t"
    by (simp add: isLocalNamespaceTarget_def exampleTarget_def)
  have a: "getLocalNamespaceTargetIndex ?bad ''team'' = -1"
    using missing_local_target[of ?bad "''team''"] none by blast
  have k: "(1::nat) < length ?good" by simp
  have loc: "isLocalNamespaceTarget ''team'' (?good ! 1)"
    by (simp add: isLocalNamespaceTarget_def exampleTarget_def)
  have first: "\<forall>j < (1::nat). \<not> isLocalNamespaceTarget ''team'' (?good ! j)"
    by (simp add: isLocalNamespaceTarget_def exampleTarget_def)
  have "getLocalNamespaceTargetIndex ?good ''team'' = int 1"
    using missing_local_target[of ?good "''team''"] k loc first by blast
  then have b: "getLocalNamespaceTargetIndex ?good ''team'' = 1" by simp
  have lk: "fst (Lookup exampleLookup ?cl [] exampleMatchable) = (Some [], None)"
    by (simp only: exampleLookup_no_tokens fst_conv)
  have rs: "fst (lookupRemoteSecrets exampleLookup ?cl exampleMatchable) = (Some ?rss, None)"
    by (simp only: exampleLookup_remoteSecrets fst_conv)
  have ne: "?rss \<noteq> []" by simp
  have parse: "RepoUrlParser exampleLookup (RepoUrl exampleMatchable) = Inr ?u"
    by (simp add: exampleLookup_def)
  have ns: "ObjNamespace exampleMatchable = ''team''" by (simp add: exampleMatchable_def)
  have tg: "Targets (matchingRemoteSecret exampleValues ?u ?rss) = ?bad"
    by (simp add: matchingRemoteSecret_single exampleRemoteSecret_def)
  have none': "\<forall>t \<in> set (Targets (matchingRemoteSecret exampleValues ?u ?rss)).
                 \<not> isLocalNamespaceTarget (ObjNamespace exampleMatchable) t"
    unfolding tg ns by (rule none)
  have c: "fst (LookupCredentials exampleValues exampleLookup ?cl [] exampleMatchable)
             = (None, Some missingTargetError)"
    using missing_local_target[of "[]" "''team''" exampleLookup ?cl "[]" exampleMatchable exampleValues]
      lk rs ne parse none' by blast
  have d: "lookupRemoteSecretSecret exampleValues exampleLookup ?cle exampleMatchable ?rss
             = ((None, Some missingTargetError), [])"
    using missing_local_target[of "[]" "''team''" exampleLookup ?cle "[]" exampleMatchable exampleValues]
      ne parse none' by blast
  have ned: "?rsd \<noteq> []" by simp
  have tgd: "Targets (matchingRemoteSecret exampleValues ?u ?rsd) = ?tgs"
    by (simp add: matchingRemoteSecret_single exampleRemoteSecret_def)
  have kd: "(3::nat) < length (Targets (matchingRemoteSecret exampleValues ?u ?rsd))"
    unfolding tgd by simp
  have locd: "isLocalNamespaceTarget (ObjNamespace exampleMatchable)
                (Targets (matchingRemoteSecret exampleValues ?u ?rsd) ! 3)"
    unfolding tgd ns by (simp add: isLocalNamespaceTarget_def exampleTarget_def)
  have firstd: "\<forall>j < (3::nat). \<not> isLocalNamespaceTarget (ObjNamespace exampleMatchable)
                  (Targets (matchingRemoteSecret exampleValues ?u ?rsd) ! j)"
    unfolding tgd ns
    by (auto simp: isLocalNamespaceTarget_def exampleTarget_def less_Suc_eq numeral_3_eq_3)
  have named: "SecretName (Targets (matchingRemoteSecret exampleValues ?u ?rsd) ! 3) = ''scoped-secret''"
    unfolding tgd by (simp add: exampleTarget_def)
  have gote: "Get_Secret ?cle ''team'' ''scoped-secret'' = Inr ?secret"
    by (simp add: exampleClient_def exampleSecrets_def)
  have gotd: "Get_Secret ?cld (ObjNamespace exampleMatchable)
                (SecretName (Targets (matchingRemoteSecret exampleValues ?u ?rsd) ! 3)) = Inr ?secret"
    unfolding named ns by (simp add: exampleClient_def exampleSecrets_def)
  have "lookupRemoteSecretSecret exampleValues exampleLookup ?cle exampleMatchable ?rsd
          = (case Get_Secret ?cle (ObjNamespace exampleMatchable)
                    (SecretName (Targets (matchingRemoteSecret exampleValues ?u ?rsd) ! 3)) of
               Inl e \<Rightarrow> (None, Some (Wrap ''unable to find Secret created by RemoteSecret'' e))
             | Inr secret \<Rightarrow> (Some secret, None),
             [CallGetSecret (ObjNamespace exampleMatchable)
                (SecretName (Targets (matchingRemoteSecret exampleValues ?u ?rsd) ! 3))])"
    using missing_local_target[of "[]" "''team''" exampleLookup ?cle "[]" exampleMatchable exampleValues]
      ned parse kd locd firstd by blast
  then have e: "lookupRemoteSecretSecret exampleValues exampleLookup ?cle exampleMatchable ?rsd
          = ((Some ?secret, None), [CallGetSecret ''team'' ''scoped-secret''])"
    unfolding named ns by (simp add: gote)
  have lkd: "Lookup exampleLookup ?cld [] exampleMatchable
               = ((Some [], None),
                  [CallListSPIAccessToken ''team'' [(ServiceProviderTypeLabel, ''GitLab''),
                                                    (ServiceProviderHostLabel, ''gitlab.com'')]])"
    by (rule exampleLookup_no_tokens)
  have rsd: "lookupRemoteSecrets exampleLookup ?cld exampleMatchable
               = ((Some ?rsd, None),
                  [CallListRemoteSecret ''team'' [(RSServiceProviderHostLabel, ''gitlab.com'')]])"
    by (rule exampleLookup_remoteSecrets)
  from lkd have lkd': "fst (Lookup exampleLookup ?cld [] exampleMatchable) = (Some [], None)"
    by (simp only: fst_conv)
  from rsd have rsd': "fst (lookupRemoteSecrets exampleLookup ?cld exampleMatchable) = (Some ?rsd, None)"
    by (simp only: fst_conv)
  have "LookupCredentials exampleValues exampleLookup ?cld [] exampleMatchable
          = ((Some \<lparr>Username = (case Data ?secret ''username'' of None \<Rightarrow> [] | Some v \<Rightarrow> v),
                    Token = (case Data ?secret ''password'' of None \<Rightarrow> [] | Some v \<Rightarrow> v)\<rparr>, None),
             snd (Lookup exampleLookup ?cld [] exampleMatchable)
               @ snd (lookupRemoteSecrets exampleLookup ?cld exampleMatchable)
               @ [CallGetSecret (ObjNamespace exampleMatchable)
                    (SecretName (Targets (matchingRemoteSecret exampleValues ?u ?rsd) ! 3))])"
    using missing_local_target[of "[]" "''team''" exampleLookup ?cld "[]" exampleMatchable exampleValues]
      lkd' rsd' ned parse kd locd firstd gotd by blast
  then have f: "LookupCredentials exampleValues exampleLookup ?cld [] exampleMatchable
     = ((Some \<lparr>Username = ''bob'', Token = []\<rparr>, None),
        [CallListSPIAccessToken ''team'' [(ServiceProviderTypeLabel, ''GitLab''),
                                          (ServiceProviderHostLabel, ''gitlab.com'')],
         CallListRemoteSecret ''team'' [(RSServiceProviderHostLabel, ''gitlab.com'')],
         CallGetSecret ''team'' ''scoped-secret''])"
    unfolding named ns lkd rsd by simp
  from a b c d e f show ?thesis by (intro conjI)
qed

section \<open>LookupCredentials: properties\<close>

text \<open>
  C1. \<open>LookupCredentials\<close> lists the remote secrets exactly when \<open>Lookup\<close>
  returns an empty list of tokens and no error, and it gets a secret only then. When
  in addition no remote secret matches, or the matched remote secrets resolve to no
  secret, the result is absent credentials with no error.
\<close>

theorem LookupCredentials_remote_fallback:
  "((\<exists>ns ls. CallListRemoteSecret ns ls \<in> set (snd (LookupCredentials values l cl sched matchable)))
      = (fst (Lookup l cl sched matchable) = (Some [], None)))
   \<and> ((\<exists>ns n. CallGetSecret ns n \<in> set (snd (LookupCredentials values l cl sched matchable)))
        \<longrightarrow> fst (Lookup l cl sched matchable) = (Some [], None))
   \<and> (fst (Lookup l cl sched matchable) = (Some [], None)
        \<longrightarrow> fst (lookupRemoteSecrets l cl matchable) = (Some [], None)
        \<longrightarrow> fst (LookupCredentials values l cl sched matchable) = (None, None))
   \<and> (\<forall>remoteSecrets.
        fst (Lookup l cl sched matchable) = (Some [], None)
        \<longrightarrow> fst (lookupRemoteSecrets l cl matchable) = (remoteSecrets, None)
        \<longrightarrow> fst (lookupRemoteSecretSecret values l cl matchable (slice remoteSecrets)) = (None, None)
        \<longrightarrow> fst (LookupCredentials values l cl sched matchable) = (None, None))"
proof -
  let ?L = "Lookup l cl sched matchable"
  let ?C = "LookupCredentials values l cl sched matchable"
  have only_lookup: "snd ?C = snd ?L" if "fst ?L \<noteq> (Some [], None)"
  proof (cases "snd (fst ?L)")
    case (Some e)
    then show ?thesis by (simp add: LookupCredentials_error)
  next
    case None
    with that Lookup_not_nil[of l cl sched matchable]
    obtain t ts where "fst ?L = (Some (t # ts), None)"
      by (cases "fst ?L"; cases "fst (fst ?L)"; cases "the (fst (fst ?L))") auto
    then show ?thesis by (simp add: LookupCredentials_tokens)
  qed
  have no_remote: "fst ?L = (Some [], None)"
    if "c \<in> set (snd ?C)" "\<And>ns ls. c \<noteq> CallListSPIAccessToken ns ls" for c
  proof (rule ccontr)
    assume "fst ?L \<noteq> (Some [], None)"
    then have "snd ?C = snd ?L" by (rule only_lookup)
    with that(1) have "c \<in> set (snd ?L)" by simp
    then obtain ns ls where "c = CallListSPIAccessToken ns ls" using Lookup_calls by blast
    with that(2) show False by blast
  qed
  have listed: "\<exists>ns ls. CallListRemoteSecret ns ls \<in> set (snd ?C)" if z: "fst ?L = (Some [], None)"
  proof -
    from z have "snd (fst ?L) = None" by simp
    then obtain u where "RepoUrlParser l (RepoUrl matchable) = Inr u"
      using Lookup_ok_parse by blast
    then have "CallListRemoteSecret (ObjNamespace matchable) [(RSServiceProviderHostLabel, Host u)]
                 \<in> set (snd (lookupRemoteSecrets l cl matchable))"
      by (simp add: lookupRemoteSecrets_calls)
    with LookupCredentials_remote_calls[OF z, of "values"] show ?thesis by blast
  qed
  have one: "(\<exists>ns ls. CallListRemoteSecret ns ls \<in> set (snd ?C)) = (fst ?L = (Some [], None))"
    using listed no_remote by blast
  have two: "(\<exists>ns n. CallGetSecret ns n \<in> set (snd ?C)) \<longrightarrow> fst ?L = (Some [], None)"
    using no_remote by blast
  have four: "fst ?C = (None, None)"
    if z: "fst ?L = (Some [], None)"
      and r: "fst (lookupRemoteSecrets l cl matchable) = (remoteSecrets, None)"
      and s: "fst (lookupRemoteSecretSecret values l cl matchable (slice remoteSecrets)) = (None, None)"
    for remoteSecrets
  proof -
    from r obtain c2 where R: "lookupRemoteSecrets l cl matchable = ((remoteSecrets, None), c2)"
      by (metis prod.collapse)
    from s obtain c3 where S: "lookupRemoteSecretSecret values l cl matchable (slice remoteSecrets)
                                 = ((None, None), c3)"
      by (metis prod.collapse)
    show ?thesis by (simp add: LookupCredentials_remote[OF z] R S)
  qed
  have three: "fst ?C = (None, None)"
    if z: "fst ?L = (Some [], None)"
      and r: "fst (lookupRemoteSecrets l cl matchable) = (Some [], None)"
  proof -
    have "fst (lookupRemoteSecretSecret values l cl matchable (slice (Some []))) = (None, None)"
      by (simp add: lookupRemoteSecretSecret_def slice_def)
    with z r show ?thesis by (rule four)
  qed
  from one two three four show ?thesis by blast
qed

theorem LookupCredentials_remote_fallback_witness:
  "LookupCredentials exampleValues exampleLookup
      (exampleClient [exampleToken ''b'' ''AwaitingTokenData''] [] exampleSecrets) [] exampleMatchable
     = ((None, None),
        [CallListSPIAccessToken ''team'' [(ServiceProviderTypeLabel, ''GitLab''),
                                          (ServiceProviderHostLabel, ''gitlab.com'')],
         CallListRemoteSecret ''team'' [(RSServiceProviderHostLabel, ''gitlab.com'')]])
   \<and> fst (Lookup exampleLookup
            (exampleClient [exampleToken ''b'' ''AwaitingTokenData''] [] exampleSecrets) []
            exampleMatchable) = (Some [], None)
   \<and> snd (LookupCredentials exampleValues exampleLookup
            (exampleClient [exampleToken ''a'' ''Ready''] [] exampleSecrets) [] exampleMatchable)
     = [CallListSPIAccessToken ''team'' [(ServiceProviderTypeLabel, ''GitLab''),
                                         (ServiceProviderHostLabel, ''gitlab.com'')]]"
proof -
  let ?cl = "exampleClient [exampleToken ''b'' ''AwaitingTokenData''] [] exampleSecrets"
  let ?cl2 = "exampleClient [exampleToken ''a'' ''Ready''] [] exampleSecrets"
  have lk: "fst (Lookup exampleLookup ?cl [] exampleMatchable) = (Some [], None)"
    by (simp add: Lookup_def exampleLookup_def exampleClient_def exampleMatchable_def examine_def
        exampleToken_def SPIAccessTokenPhaseReady_def Let_def)
  have rs: "fst (lookupRemoteSecrets exampleLookup ?cl exampleMatchable) = (Some [], None)"
    by (simp only: exampleLookup_remoteSecrets fst_conv)
  note t = LookupCredentials_remote_fallback[of exampleValues exampleLookup ?cl "[]" exampleMatchable]
  from t lk rs have res: "fst (LookupCredentials exampleValues exampleLookup ?cl [] exampleMatchable)
                            = (None, None)" by blast
  have tr: "snd (LookupCredentials exampleValues exampleLookup ?cl [] exampleMatchable)
     = [CallListSPIAccessToken ''team'' [(ServiceProviderTypeLabel, ''GitLab''),
                                         (ServiceProviderHostLabel, ''gitlab.com'')],
        CallListRemoteSecret ''team'' [(RSServiceProviderHostLabel, ''gitlab.com'')]]"
    by (simp add: LookupCredentials_remote[OF lk] exampleLookup_remoteSecrets
        lookupRemoteSecretSecret_def slice_def)
       (simp add: Lookup_def exampleLookup_def exampleClient_def exampleMatchable_def examine_def
        exampleToken_def SPIAccessTokenPhaseReady_def Let_def)
  from res tr have a: "LookupCredentials exampleValues exampleLookup ?cl [] exampleMatchable
     = ((None, None),
        [CallListSPIAccessToken ''team'' [(ServiceProviderTypeLabel, ''GitLab''),
                                          (ServiceProviderHostLabel, ''gitlab.com'')],
         CallListRemoteSecret ''team'' [(RSServiceProviderHostLabel, ''gitlab.com'')]])"
    by (metis prod.collapse)
  have lk2: "Lookup exampleLookup ?cl2 [] exampleMatchable
     = ((Some [(exampleToken ''a'' ''Ready'')\<lparr>TokenMetadata := Some ''fresh''\<rparr>], None),
        [CallListSPIAccessToken ''team'' [(ServiceProviderTypeLabel, ''GitLab''),
                                          (ServiceProviderHostLabel, ''gitlab.com'')]])"
    by (simp add: Lookup_def exampleLookup_def exampleClient_def exampleMatchable_def examine_def
        exampleToken_def SPIAccessTokenPhaseReady_def goroutine_def Let_def)
  have c: "snd (LookupCredentials exampleValues exampleLookup ?cl2 [] exampleMatchable)
     = [CallListSPIAccessToken ''team'' [(ServiceProviderTypeLabel, ''GitLab''),
                                         (ServiceProviderHostLabel, ''gitlab.com'')]]"
    by (simp add: LookupCredentials_tokens lk2)
  from a lk c show ?thesis by (intro conjI)
qed

text \<open>
  C6. When \<open>Lookup\<close> returns at least one token, \<open>LookupCredentials\<close> asks the
  token storage for the data of the first token of the list. If the storage answers
  with no data and no error, the call fails with \<open>accessTokenNotFoundError\<close>; if it
  answers with data, the credentials are that data's username and access token; if it
  fails, the call fails with the wrapped error. The result is never the absent result
  with no error, and no remote secret is consulted.
\<close>

theorem LookupCredentials_token_data:
  assumes found: "fst (Lookup l cl sched matchable) = (Some (t # ts), None)"
  shows "(TokenStorage l t = Inr None
            \<longrightarrow> fst (LookupCredentials values l cl sched matchable) = (None, Some accessTokenNotFoundError))
         \<and> (\<forall>tokenData. TokenStorage l t = Inr (Some tokenData)
            \<longrightarrow> fst (LookupCredentials values l cl sched matchable)
                = (Some \<lparr>Username = Token_Username tokenData, Token = AccessToken tokenData\<rparr>, None))
         \<and> (\<forall>e. TokenStorage l t = Inl e
            \<longrightarrow> fst (LookupCredentials values l cl sched matchable)
                = (None, Some (Wrap ''failed to get token data'' e)))
         \<and> fst (LookupCredentials values l cl sched matchable) \<noteq> (None, None)
         \<and> snd (LookupCredentials values l cl sched matchable) = snd (Lookup l cl sched matchable)"
  unfolding LookupCredentials_tokens[OF found]
  by (auto split: sum.splits option.splits)

theorem LookupCredentials_token_data_witness:
  "fst (Lookup exampleLookup (exampleClient [exampleToken ''a'' ''Ready'', exampleToken ''e'' ''Ready'']
          [] exampleSecrets) [] exampleMatchable)
     = (Some [(exampleToken ''a'' ''Ready'')\<lparr>TokenMetadata := Some ''fresh''\<rparr>,
              (exampleToken ''e'' ''Ready'')\<lparr>TokenMetadata := Some ''fresh''\<rparr>], None)
   \<and> fst (LookupCredentials exampleValues exampleLookup
          (exampleClient [exampleToken ''a'' ''Ready'', exampleToken ''e'' ''Ready''] [] exampleSecrets)
          [] exampleMatchable)
     = (Some \<lparr>Username = ''alice'', Token = ''glpat''\<rparr>, None)
   \<and> fst (Lookup exampleLookup (exampleClient [exampleToken ''a'' ''Ready'', exampleToken ''e'' ''Ready'']
          [] exampleSecrets) [1] exampleMatchable)
     = (Some [(exampleToken ''e'' ''Ready'')\<lparr>TokenMetadata := Some ''fresh''\<rparr>,
              (exampleToken ''a'' ''Ready'')\<lparr>TokenMetadata := Some ''fresh''\<rparr>], None)
   \<and> fst (LookupCredentials exampleValues exampleLookup
          (exampleClient [exampleToken ''a'' ''Ready'', exampleToken ''e'' ''Ready''] [] exampleSecrets)
          [1] exampleMatchable)
     = (None, Some accessTokenNotFoundError)"
proof -
  let ?cl = "exampleClient [exampleToken ''a'' ''Ready'', exampleToken ''e'' ''Ready''] [] exampleSecrets"
  let ?a = "(exampleToken ''a'' ''Ready'')\<lparr>TokenMetadata := Some ''fresh''\<rparr>"
  let ?e = "(exampleToken ''e'' ''Ready'')\<lparr>TokenMetadata := Some ''fresh''\<rparr>"
  have lk0: "fst (Lookup exampleLookup ?cl [] exampleMatchable) = (Some [?a, ?e], None)"
    by (simp add: Lookup_def exampleLookup_def exampleClient_def exampleMatchable_def examine_def
        exampleToken_def SPIAccessTokenPhaseReady_def goroutine_def Let_def)
  have lk1: "fst (Lookup exampleLookup ?cl [1] exampleMatchable) = (Some [?e, ?a], None)"
    by (simp add: Lookup_def exampleLookup_def exampleClient_def exampleMatchable_def examine_def
        exampleToken_def SPIAccessTokenPhaseReady_def goroutine_def Let_def)
  have sa: "TokenStorage exampleLookup ?a = Inr (Some \<lparr>Token_Username = ''alice'', AccessToken = ''glpat''\<rparr>)"
    by (simp add: exampleLookup_def exampleToken_def)
  have se: "TokenStorage exampleLookup ?e = Inr None"
    by (simp add: exampleLookup_def exampleToken_def)
  from LookupCredentials_token_data[OF lk0, of exampleValues] sa
  have "fst (LookupCredentials exampleValues exampleLookup ?cl [] exampleMatchable)
          = (Some \<lparr>Username = Token_Username \<lparr>Token_Username = ''alice'', AccessToken = ''glpat''\<rparr>,
                   Token = AccessToken \<lparr>Token_Username = ''alice'', AccessToken = ''glpat''\<rparr>\<rparr>, None)"
    by blast
  then have r0: "fst (LookupCredentials exampleValues exampleLookup ?cl [] exampleMatchable)
          = (Some \<lparr>Username = ''alice'', Token = ''glpat''\<rparr>, None)"
    by simp
  from LookupCredentials_token_data[OF lk1, of exampleValues] se
  have r1: "fst (LookupCredentials exampleValues exampleLookup ?cl [1] exampleMatchable)
          = (None, Some accessTokenNotFoundError)"
    by blast
  from lk0 r0 lk1 r1 show ?thesis by (intro conjI)
qed

text \<open>
  C10. When no token matches and the matched remote secrets resolve to a secret,
  \<open>LookupCredentials\<close> succeeds with credentials read from the secret's data at
  the keys \<open>username\<close> and \<open>password\<close>; a key that is absent gives the empty
  string, and the call succeeds all the same.
\<close>

theorem LookupCredentials_basic_auth:
  assumes none: "fst (Lookup l cl sched matchable) = (Some [], None)"
    and matched: "fst (lookupRemoteSecrets l cl matchable) = (remoteSecrets, None)"
    and resolved: "fst (lookupRemoteSecretSecret values l cl matchable (slice remoteSecrets))
                     = (Some secret, None)"
  shows "\<exists>c. fst (LookupCredentials values l cl sched matchable) = (Some c, None)
           \<and> Username c = (case Data secret ''username'' of None \<Rightarrow> [] | Some v \<Rightarrow> v)
           \<and> Token c = (case Data secret ''password'' of None \<Rightarrow> [] | Some v \<Rightarrow> v)
           \<and> (Data secret ''username'' = None \<longrightarrow> Username c = [])
           \<and> (Data secret ''password'' = None \<longrightarrow> Token c = [])"
proof -
  from matched obtain c2 where R: "lookupRemoteSecrets l cl matchable = ((remoteSecrets, None), c2)"
    by (metis prod.collapse)
  from resolved obtain c3 where
    S: "lookupRemoteSecretSecret values l cl matchable (slice remoteSecrets) = ((Some secret, None), c3)"
    by (metis prod.collapse)
  show ?thesis
    by (simp add: LookupCredentials_remote[OF none] R S index_map_def
        BasicAuthUsernameKey_def BasicAuthPasswordKey_def)
qed

theorem LookupCredentials_basic_auth_witness:
  "fst (LookupCredentials exampleValues exampleLookup
          (exampleClient []
             [exampleRemoteSecret ''scoped'' (Some ''org/other,org/repo'')
                [exampleTarget [] ''team'' ''scoped-secret'']]
             exampleSecrets)
          [] exampleMatchable)
     = (Some \<lparr>Username = ''bob'', Token = []\<rparr>, None)"
proof -
  let ?rss = "[exampleRemoteSecret ''scoped'' (Some ''org/other,org/repo'')
                [exampleTarget [] ''team'' ''scoped-secret'']]"
  let ?cl = "exampleClient [] ?rss exampleSecrets"
  let ?secret = "\<lparr>Secret_Name = ''scoped-secret'', Data = [''username'' \<mapsto> ''bob'']\<rparr>"
  have lk: "fst (Lookup exampleLookup ?cl [] exampleMatchable) = (Some [], None)"
    by (simp only: exampleLookup_no_tokens fst_conv)
  have rs: "fst (lookupRemoteSecrets exampleLookup ?cl exampleMatchable) = (Some ?rss, None)"
    by (simp only: exampleLookup_remoteSecrets fst_conv)
  have sl: "slice (Some ?rss) = ?rss" by (simp add: slice_def)
  have sec: "fst (lookupRemoteSecretSecret exampleValues exampleLookup ?cl exampleMatchable
                    (slice (Some ?rss))) = (Some ?secret, None)"
    unfolding sl by (simp only: exampleLookup_scoped_secret fst_conv)
  from LookupCredentials_basic_auth[OF lk rs sec]
  obtain c where H: "fst (LookupCredentials exampleValues exampleLookup ?cl [] exampleMatchable)
                       = (Some c, None)
           \<and> Username c = (case Data ?secret ''username'' of None \<Rightarrow> [] | Some v \<Rightarrow> v)
           \<and> Token c = (case Data ?secret ''password'' of None \<Rightarrow> [] | Some v \<Rightarrow> v)
           \<and> (Data ?secret ''username'' = None \<longrightarrow> Username c = [])
           \<and> (Data ?secret ''password'' = None \<longrightarrow> Token c = [])" ..
  from H have c: "fst (LookupCredentials exampleValues exampleLookup ?cl [] exampleMatchable)
                       = (Some c, None)" by (rule conjunct1)
  from H have u: "Username c = (case Data ?secret ''username'' of None \<Rightarrow> [] | Some v \<Rightarrow> v)"
    by (elim conjE)
  from H have p: "Data ?secret ''password'' = None \<longrightarrow> Token c = []"
    by (elim conjE)
  from u have u': "Username c = ''bob''" by simp
  from p have p': "Token c = []" by simp
  from u' p' have "c = \<lparr>Username = ''bob'', Token = []\<rparr>" by (cases c) simp
  with c show ?thesis by simp
qed

section \<open>The GitLab service provider: properties\<close>

lemma validateRequired_eq:
  "validateRequired ps ret
     = ret\<lparr>ScopeValidation := ScopeValidation ret @ concat (map permissionErrors ps)\<rparr>"
proof (induction ps arbitrary: ret)
  case Nil
  then show ?case by simp
next
  case (Cons p ps)
  show ?case
    by (simp add: Cons.IH permissionErrors_def supportedAreas_def
        PermissionAreaRepository_def PermissionAreaRepositoryMetadata_def
        PermissionAreaRegistry_def PermissionAreaUser_def)
qed

lemma validateAdditional_eq:
  "validateAdditional IsValidScope ss ret
     = ret\<lparr>ScopeValidation := ScopeValidation ret
               @ map (Detail unsupportedScopeError) (filter (\<lambda>s. \<not> IsValidScope s) ss)\<rparr>"
  by (induction ss arbitrary: ret) simp_all

lemma Validate_eq:
  "Validate IsValidScope validated
     = (\<lparr>ScopeValidation =
           concat (map permissionErrors (Required validated))
           @ map (Detail unsupportedScopeError)
               (filter (\<lambda>s. \<not> IsValidScope s) (AdditionalScopes validated))\<rparr>, None)"
  by (simp add: Validate_def validateRequired_eq validateAdditional_eq)

lemma count_area_errors:
  "length (filter (\<lambda>e. \<exists>a. e = Detail unsupportedAreaError a) (concat (map permissionErrors ps)))
     = length (filter (\<lambda>p. Area p \<notin> set supportedAreas) ps)"
  by (induction ps) (simp_all add: permissionErrors_def)

lemma count_user_write_errors:
  "length (filter (\<lambda>e. e = unsupportedUserWritePermissionError) (concat (map permissionErrors ps)))
     = length (filter (\<lambda>p. Area p = PermissionAreaUser \<and> IsWrite (Permission_Type p)) ps)"
  by (induction ps) (auto simp: permissionErrors_def supportedAreas_def)

lemma count_scope_errors_required:
  "filter (\<lambda>e. \<exists>s. e = Detail unsupportedScopeError s) (concat (map permissionErrors ps)) = []"
  by (induction ps) (simp_all add: permissionErrors_def)

lemma filter_scope_errors:
  "filter (\<lambda>e. \<exists>s. e = Detail unsupportedScopeError s) (map (Detail unsupportedScopeError) ss)
     = map (Detail unsupportedScopeError) ss"
  by (induction ss) simp_all

lemma filter_not_scope_errors:
  "filter (\<lambda>e. \<exists>a. e = Detail unsupportedAreaError a) (map (Detail unsupportedScopeError) ss) = []"
  "filter (\<lambda>e. e = unsupportedUserWritePermissionError) (map (Detail unsupportedScopeError) ss) = []"
  by (induction ss) simp_all

text \<open>
  C9. The errors \<open>Validate\<close> reports are, in order: for each required permission
  whose area is none of repository, repository metadata, registry and user, one
  \<open>unsupportedAreaError\<close> naming the area; for each required write permission on
  the user area, one \<open>unsupportedUserWritePermissionError\<close>; then, for each
  additional scope that \<open>IsValidScope\<close> rejects, one \<open>unsupportedScopeError\<close>
  naming the scope. \<open>Validate\<close> itself returns no error. The areas it accepts are
  the areas for which the scope translation names a scope.
\<close>

theorem Validate_scope_errors:
  "Validate IsValidScope validated
     = (\<lparr>ScopeValidation =
           concat (map permissionErrors (Required validated))
           @ map (Detail unsupportedScopeError)
               (filter (\<lambda>s. \<not> IsValidScope s) (AdditionalScopes validated))\<rparr>, None)
   \<and> length (filter (\<lambda>e. \<exists>a. e = Detail unsupportedAreaError a)
               (ScopeValidation (fst (Validate IsValidScope validated))))
       = length (filter (\<lambda>p. Area p \<notin> set [''repository'', ''repositoryMetadata'', ''registry'', ''user''])
                   (Required validated))
   \<and> length (filter (\<lambda>e. e = unsupportedUserWritePermissionError)
               (ScopeValidation (fst (Validate IsValidScope validated))))
       = length (filter (\<lambda>p. Area p = ''user'' \<and> IsWrite (Permission_Type p)) (Required validated))
   \<and> length (filter (\<lambda>e. \<exists>s. e = Detail unsupportedScopeError s)
               (ScopeValidation (fst (Validate IsValidScope validated))))
       = length (filter (\<lambda>s. \<not> IsValidScope s) (AdditionalScopes validated))
   \<and> (translateToGitlabScopes p = []) = (Area p \<notin> set supportedAreas)"
proof (intro conjI)
  show "Validate IsValidScope validated
     = (\<lparr>ScopeValidation =
           concat (map permissionErrors (Required validated))
           @ map (Detail unsupportedScopeError)
               (filter (\<lambda>s. \<not> IsValidScope s) (AdditionalScopes validated))\<rparr>, None)"
    by (rule Validate_eq)
  have areas: "set [''repository'', ''repositoryMetadata'', ''registry'', ''user''] = set supportedAreas"
    by (simp add: supportedAreas_def PermissionAreaRepository_def PermissionAreaRepositoryMetadata_def
        PermissionAreaRegistry_def PermissionAreaUser_def)
  show "length (filter (\<lambda>e. \<exists>a. e = Detail unsupportedAreaError a)
               (ScopeValidation (fst (Validate IsValidScope validated))))
       = length (filter (\<lambda>p. Area p \<notin> set [''repository'', ''repositoryMetadata'', ''registry'', ''user''])
                   (Required validated))"
    unfolding areas
    by (simp add: Validate_eq count_area_errors filter_not_scope_errors)
  show "length (filter (\<lambda>e. e = unsupportedUserWritePermissionError)
               (ScopeValidation (fst (Validate IsValidScope validated))))
       = length (filter (\<lambda>p. Area p = ''user'' \<and> IsWrite (Permission_Type p)) (Required validated))"
    using count_user_write_errors[of "Required validated"]
    by (simp add: Validate_eq filter_not_scope_errors PermissionAreaUser_def)
  show "length (filter (\<lambda>e. \<exists>s. e = Detail unsupportedScopeError s)
               (ScopeValidation (fst (Validate IsValidScope validated))))
       = length (filter (\<lambda>s. \<not> IsValidScope s) (AdditionalScopes validated))"
    by (simp add: Validate_eq count_scope_errors_required filter_scope_errors)
  show "(translateToGitlabScopes p = []) = (Area p \<notin> set supportedAreas)"
    by (simp add: translateToGitlabScopes_def supportedAreas_def)
qed

theorem Validate_scope_errors_witness:
  "Validate (\<lambda>s. s = ''api'' \<or> s = ''read_user'')
      \<lparr>Required = [\<lparr>Permission_Type = ''w'', Area = ''repository''\<rparr>,
                   \<lparr>Permission_Type = ''r'', Area = ''webhooks''\<rparr>,
                   \<lparr>Permission_Type = ''rw'', Area = ''user''\<rparr>,
                   \<lparr>Permission_Type = ''r'', Area = ''user''\<rparr>],
       AdditionalScopes = [''api'', ''admin'']\<rparr>
     = (\<lparr>ScopeValidation = [Detail unsupportedAreaError ''webhooks'',
                             unsupportedUserWritePermissionError,
                             Detail unsupportedScopeError ''admin'']\<rparr>, None)"
proof -
  let ?v = "\<lparr>Required = [\<lparr>Permission_Type = ''w'', Area = ''repository''\<rparr>,
                   \<lparr>Permission_Type = ''r'', Area = ''webhooks''\<rparr>,
                   \<lparr>Permission_Type = ''rw'', Area = ''user''\<rparr>,
                   \<lparr>Permission_Type = ''r'', Area = ''user''\<rparr>],
       AdditionalScopes = [''api'', ''admin'']\<rparr>"
  let ?ok = "\<lambda>s. s = ''api'' \<or> s = ''read_user''"
  from Validate_scope_errors[of ?ok ?v]
  have "Validate ?ok ?v
     = (\<lparr>ScopeValidation =
           concat (map permissionErrors (Required ?v))
           @ map (Detail unsupportedScopeError)
               (filter (\<lambda>s. \<not> ?ok s) (AdditionalScopes ?v))\<rparr>, None)"
    by (rule conjunct1)
  also have "\<dots> = (\<lparr>ScopeValidation = [Detail unsupportedAreaError ''webhooks'',
                             unsupportedUserWritePermissionError,
                             Detail unsupportedScopeError ''admin'']\<rparr>, None)"
    by (simp add: permissionErrors_def supportedAreas_def IsWrite_def
        PermissionAreaRepository_def PermissionAreaRepositoryMetadata_def
        PermissionAreaRegistry_def PermissionAreaUser_def
        PermissionTypeWrite_def PermissionTypeReadWrite_def)
  finally show ?thesis .
qed

text \<open>
  C8. When the request can be built and the HTTP client answers, the public probe is
  one GET of the repository URL with an empty header. On status 200 the access check
  returns accessible and public, and the probe is the only call made: the private
  check does not run. On any other status, 404 or not, the probe reports not public
  with no error, and the access check returns what the private check returns, its calls
  following the probe.
\<close>

theorem CheckRepositoryAccess_public_probe:
  assumes parsed: "parse (Spec_RepoUrl accessCheck) = Inr u"
    and answered: "httpClient g \<lparr>Method = ''GET'', Request_URL = Spec_RepoUrl accessCheck, Header = []\<rparr>
                     = Inr resp"
  shows "checkPublicRepoAccess parse g accessCheck
           = ((StatusCode resp = 200, None),
              [CallHttpDo \<lparr>Method = ''GET'', Request_URL = Spec_RepoUrl accessCheck, Header = []\<rparr>])
         \<and> (StatusCode resp = 200
              \<longrightarrow> CheckRepositoryAccess parse values g cl sched accessCheck
                  = ((Some \<lparr>Accessible = True, Accessibility = SPIAccessCheckAccessibilityPublic,
                            Status_Type = SPIRepoTypeGit,
                            Status_ServiceProvider = ServiceProviderTypeGitLab,
                            ErrorReason = None, ErrorMessage = None\<rparr>, None),
                     [CallHttpDo \<lparr>Method = ''GET'', Request_URL = Spec_RepoUrl accessCheck,
                                  Header = []\<rparr>]))
         \<and> (StatusCode resp \<noteq> 200
              \<longrightarrow> CheckRepositoryAccess parse values g cl sched accessCheck
                  = (fst (checkPrivateRepoAccess values g cl sched accessCheck),
                     CallHttpDo \<lparr>Method = ''GET'', Request_URL = Spec_RepoUrl accessCheck, Header = []\<rparr>
                       # snd (checkPrivateRepoAccess values g cl sched accessCheck)))"
proof -
  let ?req = "\<lparr>Method = ''GET'', Request_URL = Spec_RepoUrl accessCheck, Header = []\<rparr>"
  have pub: "checkPublicRepoAccess parse g accessCheck = ((StatusCode resp = 200, None), [CallHttpDo ?req])"
    using parsed answered
    by (simp add: checkPublicRepoAccess_def NewRequestWithContext_def StatusOK_def)
  have yes: "CheckRepositoryAccess parse values g cl sched accessCheck
                  = ((Some \<lparr>Accessible = True, Accessibility = SPIAccessCheckAccessibilityPublic,
                            Status_Type = SPIRepoTypeGit,
                            Status_ServiceProvider = ServiceProviderTypeGitLab,
                            ErrorReason = None, ErrorMessage = None\<rparr>, None), [CallHttpDo ?req])"
    if "StatusCode resp = 200"
    using that by (simp add: CheckRepositoryAccess_def pub)
  have no: "CheckRepositoryAccess parse values g cl sched accessCheck
                  = (fst (checkPrivateRepoAccess values g cl sched accessCheck),
                     CallHttpDo ?req # snd (checkPrivateRepoAccess values g cl sched accessCheck))"
    if "StatusCode resp \<noteq> 200"
    using that by (simp add: CheckRepositoryAccess_def pub split: prod.splits)
  from pub yes no show ?thesis by blast
qed

lemma exampleLookup_a:
  "LookupCredentials exampleValues exampleLookup
      (exampleClient [exampleToken ''a'' ''Ready''] [] exampleSecrets) []
      \<lparr>RepoUrl = ''https://gitlab.com/org/repo'', ObjNamespace = ''team''\<rparr>
     = ((Some \<lparr>Username = ''alice'', Token = ''glpat''\<rparr>, None),
        [CallListSPIAccessToken ''team'' [(ServiceProviderTypeLabel, ''GitLab''),
                                          (ServiceProviderHostLabel, ''gitlab.com'')]])"
proof -
  have lk: "Lookup exampleLookup (exampleClient [exampleToken ''a'' ''Ready''] [] exampleSecrets) []
              \<lparr>RepoUrl = ''https://gitlab.com/org/repo'', ObjNamespace = ''team''\<rparr>
     = ((Some [(exampleToken ''a'' ''Ready'')\<lparr>TokenMetadata := Some ''fresh''\<rparr>], None),
        [CallListSPIAccessToken ''team'' [(ServiceProviderTypeLabel, ''GitLab''),
                                          (ServiceProviderHostLabel, ''gitlab.com'')]])"
    by (simp add: Lookup_def exampleLookup_def exampleClient_def examine_def
        exampleToken_def SPIAccessTokenPhaseReady_def goroutine_def Let_def)
  have st: "TokenStorage exampleLookup ((exampleToken ''a'' ''Ready'')\<lparr>TokenMetadata := Some ''fresh''\<rparr>)
              = Inr (Some \<lparr>Token_Username = ''alice'', AccessToken = ''glpat''\<rparr>)"
    by (simp add: exampleLookup_def exampleToken_def)
  show ?thesis by (simp add: LookupCredentials_tokens lk st)
qed

lemma exampleGitlab_private:
  "checkPrivateRepoAccess exampleValues exampleGitlab
      (exampleClient [exampleToken ''a'' ''Ready''] [] exampleSecrets) []
      \<lparr>Spec_RepoUrl = ''https://gitlab.com/org/repo'', AccessCheck_Namespace = ''team''\<rparr>
     = ((Some \<lparr>Accessible = True, Accessibility = SPIAccessCheckAccessibilityPrivate,
               Status_Type = SPIRepoTypeGit, Status_ServiceProvider = ServiceProviderTypeGitLab,
               ErrorReason = None, ErrorMessage = None\<rparr>, None),
        [CallListSPIAccessToken ''team'' [(ServiceProviderTypeLabel, ''GitLab''),
                                          (ServiceProviderHostLabel, ''gitlab.com'')],
         CallGetProject ''org/repo''])"
proof -
  show ?thesis
    by (simp add: checkPrivateRepoAccess_def exampleGitlab_def asMatchable_def exampleLookup_a Let_def
        StatusOK_def PrivateVisibility_def)
qed

theorem CheckRepositoryAccess_public_probe_witness:
  "CheckRepositoryAccess exampleParse exampleValues exampleGitlab
      (exampleClient [exampleToken ''a'' ''Ready''] [] exampleSecrets) []
      \<lparr>Spec_RepoUrl = ''https://gitlab.com/org/public'', AccessCheck_Namespace = ''team''\<rparr>
     = ((Some \<lparr>Accessible = True, Accessibility = SPIAccessCheckAccessibilityPublic,
               Status_Type = SPIRepoTypeGit, Status_ServiceProvider = ServiceProviderTypeGitLab,
               ErrorReason = None, ErrorMessage = None\<rparr>, None),
        [CallHttpDo \<lparr>Method = ''GET'', Request_URL = ''https://gitlab.com/org/public'', Header = []\<rparr>])
   \<and> CheckRepositoryAccess exampleParse exampleValues exampleGitlab
      (exampleClient [exampleToken ''a'' ''Ready''] [] exampleSecrets) []
      \<lparr>Spec_RepoUrl = ''https://gitlab.com/org/repo'', AccessCheck_Namespace = ''team''\<rparr>
     = ((Some \<lparr>Accessible = True, Accessibility = SPIAccessCheckAccessibilityPrivate,
               Status_Type = SPIRepoTypeGit, Status_ServiceProvider = ServiceProviderTypeGitLab,
               ErrorReason = None, ErrorMessage = None\<rparr>, None),
        [CallHttpDo \<lparr>Method = ''GET'', Request_URL = ''https://gitlab.com/org/repo'', Header = []\<rparr>,
         CallListSPIAccessToken ''team'' [(ServiceProviderTypeLabel, ''GitLab''),
                                          (ServiceProviderHostLabel, ''gitlab.com'')],
         CallGetProject ''org/repo''])"
proof -
  let ?cl = "exampleClient [exampleToken ''a'' ''Ready''] [] exampleSecrets"
  let ?pub = "\<lparr>Spec_RepoUrl = ''https://gitlab.com/org/public'', AccessCheck_Namespace = ''team''\<rparr>"
  let ?prv = "\<lparr>Spec_RepoUrl = ''https://gitlab.com/org/repo'', AccessCheck_Namespace = ''team''\<rparr>"
  have p1: "exampleParse (Spec_RepoUrl ?pub) = Inr \<lparr>Host = ''gitlab.com'', Path = ''/org/public''\<rparr>"
    by (simp add: exampleParse_def)
  have h1: "httpClient exampleGitlab \<lparr>Method = ''GET'', Request_URL = Spec_RepoUrl ?pub, Header = []\<rparr>
              = Inr \<lparr>StatusCode = 200\<rparr>"
    by (simp add: exampleGitlab_def)
  have s1: "StatusCode \<lparr>StatusCode = 200\<rparr> = 200" by simp
  from CheckRepositoryAccess_public_probe[of exampleParse ?pub _ exampleGitlab _ exampleValues ?cl "[]",
         OF p1 h1] s1
  have "CheckRepositoryAccess exampleParse exampleValues exampleGitlab ?cl [] ?pub
     = ((Some \<lparr>Accessible = True, Accessibility = SPIAccessCheckAccessibilityPublic,
               Status_Type = SPIRepoTypeGit, Status_ServiceProvider = ServiceProviderTypeGitLab,
               ErrorReason = None, ErrorMessage = None\<rparr>, None),
        [CallHttpDo \<lparr>Method = ''GET'', Request_URL = Spec_RepoUrl ?pub, Header = []\<rparr>])"
    by (elim conjE) (erule mp, assumption)
  then have a: "CheckRepositoryAccess exampleParse exampleValues exampleGitlab ?cl [] ?pub
     = ((Some \<lparr>Accessible = True, Accessibility = SPIAccessCheckAccessibilityPublic,
               Status_Type = SPIRepoTypeGit, Status_ServiceProvider = ServiceProviderTypeGitLab,
               ErrorReason = None, ErrorMessage = None\<rparr>, None),
        [CallHttpDo \<lparr>Method = ''GET'', Request_URL = ''https://gitlab.com/org/public'', Header = []\<rparr>])"
    by simp
  have p2: "exampleParse (Spec_RepoUrl ?prv) = Inr \<lparr>Host = ''gitlab.com'', Path = ''/org/repo''\<rparr>"
    by (simp add: exampleParse_def)
  have h2: "httpClient exampleGitlab \<lparr>Method = ''GET'', Request_URL = Spec_RepoUrl ?prv, Header = []\<rparr>
              = Inr \<lparr>StatusCode = 404\<rparr>"
    by (simp add: exampleGitlab_def)
  have s2: "StatusCode \<lparr>StatusCode = 404\<rparr> \<noteq> 200" by simp
  from CheckRepositoryAccess_public_probe[of exampleParse ?prv _ exampleGitlab _ exampleValues ?cl "[]",
         OF p2 h2] s2
  have "CheckRepositoryAccess exampleParse exampleValues exampleGitlab ?cl [] ?prv
          = (fst (checkPrivateRepoAccess exampleValues exampleGitlab ?cl [] ?prv),
             CallHttpDo \<lparr>Method = ''GET'', Request_URL = Spec_RepoUrl ?prv, Header = []\<rparr>
               # snd (checkPrivateRepoAccess exampleValues exampleGitlab ?cl [] ?prv))"
    by (elim conjE) (erule mp, assumption)
  then have b: "CheckRepositoryAccess exampleParse exampleValues exampleGitlab ?cl [] ?prv
     = ((Some \<lparr>Accessible = True, Accessibility = SPIAccessCheckAccessibilityPrivate,
               Status_Type = SPIRepoTypeGit, Status_ServiceProvider = ServiceProviderTypeGitLab,
               ErrorReason = None, ErrorMessage = None\<rparr>, None),
        [CallHttpDo \<lparr>Method = ''GET'', Request_URL = ''https://gitlab.com/org/repo'', Header = []\<rparr>,
         CallListSPIAccessToken ''team'' [(ServiceProviderTypeLabel, ''GitLab''),
                                          (ServiceProviderHostLabel, ''gitlab.com'')],
         CallGetProject ''org/repo''])"
    unfolding exampleGitlab_private by simp
  from a b show ?thesis by (rule conjI)
qed

end
